theory Spec2Isabelle
  imports
    Main
    "HOL-Library.Multiset"
    "HOL-Library.Char_ord"
    "HOL-Library.List_Lexorder"
begin

section \<open>The relational store of \<open>backend/app.py\<close>\<close>

text \<open>
  The three tables of \<open>create_tables\<close>. A table is the list of its rows in rowid order.
  Python strings are modelled as \<open>string\<close>, one \<open>char\<close> per code point (code points
  below 256); row ids are natural numbers (the 64-bit ceiling of SQLite's rowid is not
  modelled).
\<close>

record user_row =
  users_id :: nat
  users_username :: string
  users_password_hash :: string
  users_is_admin :: int

record post_row =
  posts_id :: nat
  posts_user_id :: nat
  posts_image_path :: string
  posts_caption :: string
  posts_created_at :: string

record like_row =
  likes_id :: nat
  likes_user_id :: nat
  likes_post_id :: nat
  likes_created_at :: string

text \<open>
  \<open>users_seq\<close>, \<open>posts_seq\<close> and \<open>likes_seq\<close> are the \<open>sqlite_sequence\<close> entries that
  \<open>AUTOINCREMENT\<close> keeps: the largest rowid ever handed out in each table.
\<close>

record tables =
  users :: "user_row list"
  posts :: "post_row list"
  likes :: "like_row list"
  users_seq :: nat
  posts_seq :: nat
  likes_seq :: nat

definition empty_tables :: tables where
  "empty_tables =
     \<lparr>users = [], posts = [], likes = [], users_seq = 0, posts_seq = 0, likes_seq = 0\<rparr>"

text \<open>\<open>INTEGER PRIMARY KEY AUTOINCREMENT\<close>: one more than the largest rowid ever used.\<close>

definition next_rowid :: "nat \<Rightarrow> nat list \<Rightarrow> nat" where
  "next_rowid seq ids = Suc (fold max ids seq)"

datatype error =
    IntegrityError
  | ValueError
  | OverflowError
  | KeyError
  | FileNotFoundError
  | PermissionError
  | IsADirectoryError

subsection \<open>The statements the code executes\<close>

text \<open>The terms \<open>posts.created_at DESC\<close> and \<open>like_count DESC\<close> of an \<open>ORDER BY\<close> clause.\<close>

datatype order_term = CreatedAtDesc | LikeCountDesc

datatype sql =
    CreateTableUsers
  | CreateTablePosts
  | CreateTableLikes
  | SelectAdminCount
  | InsertAdmin
  | SelectUserExists string
  | InsertUser string
  | SelectUserByUsername string
  | InsertPost nat string
  | SelectPosts "order_term list"
  | SelectPostById nat
  | DeleteLikesOfPost nat
  | DeletePost nat
  | SelectLikedPostIds nat
  | SelectUserHasLiked nat nat
  | InsertOrIgnoreLike nat nat
  | DeleteLike nat nat

datatype event =
    Execute sql
  | Commit
  | PathExists string
  | OsRemove string

datatype entry = File bool | Directory

text \<open>
  The world a request runs in: \<open>disk\<close> is the committed database file, \<open>txn\<close> is what the
  open connection \<open>g.db\<close> sees (the committed data and its own uncommitted changes),
  \<open>files\<close> is the file system (\<open>File ok\<close> is a file that \<open>os.remove\<close> may delete iff
  \<open>ok\<close>), and \<open>trace\<close> lists the effects performed, oldest first.
\<close>

record world =
  disk :: tables
  txn :: tables
  files :: "string \<Rightarrow> entry option"
  trace :: "event list"

definition execute :: "sql \<Rightarrow> world \<Rightarrow> world" where
  "execute q w = w\<lparr>trace := trace w @ [Execute q]\<rparr>"

definition commit :: "world \<Rightarrow> world" where
  "commit w = w\<lparr>disk := txn w, trace := trace w @ [Commit]\<rparr>"

text \<open>
  \<open>attach_db_connection\<close> (before each request) opens a fresh connection, which sees the
  committed data; \<open>close_db_connection\<close> (teardown) closes it, and what was not committed
  is lost.
\<close>

definition attach_db_connection :: "world \<Rightarrow> world" where
  "attach_db_connection w = w\<lparr>txn := disk w\<rparr>"

definition close_db_connection :: "world \<Rightarrow> world" where
  "close_db_connection w = w\<lparr>txn := disk w\<rparr>"

section \<open>Dates and times\<close>

text \<open>
  The part of Python's \<open>datetime\<close> the code calls. A \<open>datetime\<close> holds its calendar
  fields and, when it is aware, its offset from UTC in seconds (\<open>None\<close> for a naive one).
\<close>

record datetime =
  year :: int
  month :: int
  day :: int
  hour :: int
  minute :: int
  second :: int
  microsecond :: int
  utcoffset :: "int option"

definition is_leap :: "int \<Rightarrow> bool" where
  "is_leap y = (y mod 4 = 0 \<and> (y mod 100 \<noteq> 0 \<or> y mod 400 = 0))"

definition days_before_month_tab :: "int list" where
  "days_before_month_tab = [0, 0, 31, 59, 90, 120, 151, 181, 212, 243, 273, 304, 334]"

definition days_in_month_tab :: "int list" where
  "days_in_month_tab = [0, 31, 28, 31, 30, 31, 30, 31, 31, 30, 31, 30, 31]"

definition days_in_month :: "int \<Rightarrow> int \<Rightarrow> int" where
  "days_in_month y m = (if m = 2 \<and> is_leap y then 29 else days_in_month_tab ! nat m)"

definition days_before_year :: "int \<Rightarrow> int" where
  "days_before_year y = (let p = y - 1 in p * 365 + p div 4 - p div 100 + p div 400)"

definition days_before_month :: "int \<Rightarrow> int \<Rightarrow> int" where
  "days_before_month y m =
     days_before_month_tab ! nat m + (if m > 2 \<and> is_leap y then 1 else 0)"

text \<open>The proleptic Gregorian ordinal of a date (0001-01-01 is day 1) and its inverse.\<close>

definition ymd2ord :: "int \<Rightarrow> int \<Rightarrow> int \<Rightarrow> int" where
  "ymd2ord y m d = days_before_year y + days_before_month y m + d"

definition ord2ymd :: "int \<Rightarrow> int \<times> int \<times> int" where
  "ord2ymd n0 =
     (let n = n0 - 1;
          n400 = n div 146097; n = n mod 146097;
          n100 = n div 36524; n = n mod 36524;
          n4 = n div 1461; n = n mod 1461;
          n1 = n div 365; n = n mod 365;
          y = n400 * 400 + 1 + n100 * 100 + n4 * 4 + n1
      in
      if n1 = 4 \<or> n100 = 4 then (y - 1, 12, 31)
      else
        let leapyear = (n1 = 3 \<and> (n4 \<noteq> 24 \<or> n100 = 3));
            m = (n + 50) div 32;
            preceding = days_before_month_tab ! nat m + (if m > 2 \<and> leapyear then 1 else 0)
        in
        if preceding > n then
          let m' = m - 1;
              preceding' =
                preceding - (days_in_month_tab ! nat m' + (if m' = 2 \<and> leapyear then 1 else 0))
          in (y, m', n - preceding' + 1)
        else (y, m, n - preceding + 1))"

text \<open>
  The wall-clock reading of a \<open>datetime\<close> in microseconds since 0001-01-01T00:00:00, and
  the \<open>datetime\<close> of such a reading; years outside 1..9999 are an \<open>OverflowError\<close>.
\<close>

definition wall_us :: "datetime \<Rightarrow> int" where
  "wall_us dt =
     (((ymd2ord (year dt) (month dt) (day dt) - 1) * 86400 +
        hour dt * 3600 + minute dt * 60 + second dt) * 1000000 + microsecond dt)"

definition max_wall_us :: int where
  "max_wall_us = 3652059 * 86400 * 1000000"

definition from_wall_us :: "int \<Rightarrow> int option \<Rightarrow> error + datetime" where
  "from_wall_us t off =
     (if t < 0 \<or> max_wall_us \<le> t then Inl OverflowError
      else
        let days = t div 86400000000; r = t mod 86400000000;
            (y, m, d) = ord2ymd (days + 1);
            secs = r div 1000000
        in Inr \<lparr>year = y, month = m, day = d,
                 hour = secs div 3600, minute = secs mod 3600 div 60, second = secs mod 60,
                 microsecond = r mod 1000000, utcoffset = off\<rparr>)"

text \<open>
  Time zones: \<open>Timezone s\<close> is \<open>timezone(timedelta(seconds=s))\<close>, a fixed offset;
  \<open>ZoneInfo rule\<close> is a zone of the host's time zone database, whose rule gives the
  offset in force at a UTC instant (in seconds since 1970-01-01T00:00:00 UTC).
\<close>

datatype tz = Timezone int | ZoneInfo "int \<Rightarrow> int"

text \<open>
  What the code takes from the host it runs on: the time zone database
  (\<open>zoneinfo_db key = None\<close> is \<open>ZoneInfoNotFoundError\<close>) and the system's local time
  zone (the offset it gives a naive wall-clock reading, in seconds since 1970-01-01).
\<close>

record host =
  zoneinfo_db :: "string \<Rightarrow> (int \<Rightarrow> int) option"
  local_utcoffset :: "int \<Rightarrow> int"

definition epoch_seconds :: int where
  "epoch_seconds = 719162 * 86400"

text \<open>The module constant \<open>IST\<close>.\<close>

definition IST :: "host \<Rightarrow> tz" where
  "IST h =
     (case zoneinfo_db h ''Asia/Kolkata'' of
        Some rule \<Rightarrow> ZoneInfo rule
      | None \<Rightarrow> Timezone (5 * 3600 + 30 * 60))"

text \<open>The UTC instant of a \<open>datetime\<close>; a naive one is read as the host's local time.\<close>

definition utc_us :: "host \<Rightarrow> datetime \<Rightarrow> int" where
  "utc_us h dt =
     (case utcoffset dt of
        Some off \<Rightarrow> wall_us dt - off * 1000000
      | None \<Rightarrow> wall_us dt - local_utcoffset h (wall_us dt div 1000000 - epoch_seconds) * 1000000)"

definition tz_utcoffset :: "tz \<Rightarrow> int \<Rightarrow> int" where
  "tz_utcoffset z t =
     (case z of
        Timezone off \<Rightarrow> off
      | ZoneInfo rule \<Rightarrow> rule (t div 1000000 - epoch_seconds))"

text \<open>\<open>datetime.astimezone(tz)\<close>\<close>

definition astimezone :: "host \<Rightarrow> tz \<Rightarrow> datetime \<Rightarrow> error + datetime" where
  "astimezone h z dt =
     (let t = utc_us h dt in
      if t < 0 \<or> max_wall_us \<le> t then Inl OverflowError
      else let off = tz_utcoffset z t in from_wall_us (t + off * 1000000) (Some off))"

text \<open>\<open>datetime.now(timezone.utc)\<close>, for a clock that reads the UTC instant \<open>t\<close>.\<close>

definition now_utc :: "int \<Rightarrow> error + datetime" where
  "now_utc t = from_wall_us t (Some 0)"

subsection \<open>Printing and parsing\<close>

definition digit :: "int \<Rightarrow> char" where
  "digit d = char_of (48 + d mod 10)"

fun zpad :: "nat \<Rightarrow> int \<Rightarrow> string" where
  "zpad 0 n = []"
| "zpad (Suc w) n = zpad w (n div 10) @ [digit n]"

definition format_offset :: "int option \<Rightarrow> string" where
  "format_offset off =
     (case off of
        None \<Rightarrow> []
      | Some s \<Rightarrow>
          (if s < 0 then ''-'' else ''+'') @ zpad 2 (\<bar>s\<bar> div 3600) @ '':'' @
          zpad 2 (\<bar>s\<bar> mod 3600 div 60) @
          (if \<bar>s\<bar> mod 60 = 0 then [] else '':'' @ zpad 2 (\<bar>s\<bar> mod 60)))"

text \<open>\<open>datetime.isoformat()\<close>\<close>

definition isoformat :: "datetime \<Rightarrow> string" where
  "isoformat dt =
     zpad 4 (year dt) @ ''-'' @ zpad 2 (month dt) @ ''-'' @ zpad 2 (day dt) @ ''T'' @
     zpad 2 (hour dt) @ '':'' @ zpad 2 (minute dt) @ '':'' @ zpad 2 (second dt) @
     (if microsecond dt = 0 then [] else ''.'' @ zpad 6 (microsecond dt)) @
     format_offset (utcoffset dt)"

definition is_digit :: "char \<Rightarrow> bool" where
  "is_digit c = (48 \<le> (of_char c :: int) \<and> (of_char c :: int) \<le> 57)"

definition parse_digits :: "nat \<Rightarrow> string \<Rightarrow> int option" where
  "parse_digits n s =
     (if length s = n \<and> list_all is_digit s
      then Some (foldl (\<lambda>a c. 10 * a + (of_char c - 48)) 0 s) else None)"

definition parse_date :: "string \<Rightarrow> (int \<times> int \<times> int) option" where
  "parse_date s =
     (if length s = 10 \<and> s ! 4 = CHR ''-'' \<and> s ! 7 = CHR ''-'' then
        (case (parse_digits 4 (take 4 s), parse_digits 2 (take 2 (drop 5 s)),
               parse_digits 2 (drop 8 s)) of
           (Some y, Some m, Some d) \<Rightarrow>
             if 1 \<le> y \<and> 1 \<le> m \<and> m \<le> 12 \<and> 1 \<le> d \<and> d \<le> days_in_month y m
             then Some (y, m, d) else None
         | _ \<Rightarrow> None)
      else None)"

definition parse_hms :: "string \<Rightarrow> (int \<times> int \<times> int) option" where
  "parse_hms s =
     (if length s = 8 \<and> s ! 2 = CHR '':'' \<and> s ! 5 = CHR '':'' then
        (case (parse_digits 2 (take 2 s), parse_digits 2 (take 2 (drop 3 s)),
               parse_digits 2 (drop 6 s)) of
           (Some h, Some m, Some sec) \<Rightarrow>
             if h < 24 \<and> m < 60 \<and> sec < 60 then Some (h, m, sec) else None
         | _ \<Rightarrow> None)
      else None)"

definition parse_offset :: "string \<Rightarrow> int option option" where
  "parse_offset s =
     (if s = [] then Some None
      else if length s = 6 \<and> (s ! 0 = CHR ''+'' \<or> s ! 0 = CHR ''-'') \<and> s ! 3 = CHR '':'' then
        (case (parse_digits 2 (take 2 (drop 1 s)), parse_digits 2 (drop 4 s)) of
           (Some h, Some m) \<Rightarrow>
             if h < 24 \<and> m < 60
             then Some (Some ((if s ! 0 = CHR ''-'' then - 1 else 1) * (h * 3600 + m * 60)))
             else None
         | _ \<Rightarrow> None)
      else None)"

text \<open>
  \<open>datetime.fromisoformat\<close> on the forms that \<open>isoformat()\<close> writes,
  \<open>YYYY-MM-DD\<close> alone or followed by a separator, \<open>HH:MM:SS\<close>, an optional
  \<open>.ffffff\<close> and an optional \<open>+HH:MM\<close> or \<open>-HH:MM\<close>. Every other string is a
  \<open>ValueError\<close> here; later Python versions read further ISO 8601 forms, none of which
  the code writes.
\<close>

definition fromisoformat :: "string \<Rightarrow> error + datetime" where
  "fromisoformat s =
     (case parse_date (take 10 s) of
        None \<Rightarrow> Inl ValueError
      | Some (y, m, d) \<Rightarrow>
          if drop 10 s = [] then
            Inr \<lparr>year = y, month = m, day = d, hour = 0, minute = 0, second = 0,
                 microsecond = 0, utcoffset = None\<rparr>
          else
            let t = drop 11 s;
                frac = (drop 8 t \<noteq> [] \<and> hd (drop 8 t) = CHR ''.'');
                us = (if frac then parse_digits 6 (take 6 (drop 9 t)) else Some 0);
                rest = (if frac then drop 15 t else drop 8 t)
            in
            (case (parse_hms (take 8 t), us, parse_offset rest) of
               (Some (h, mi, sec), Some u, Some off) \<Rightarrow>
                 Inr \<lparr>year = y, month = m, day = d, hour = h, minute = mi, second = sec,
                      microsecond = u, utcoffset = off\<rparr>
             | _ \<Rightarrow> Inl ValueError))"

definition month_abbr :: "string list" where
  "month_abbr = [''Jan'', ''Feb'', ''Mar'', ''Apr'', ''May'', ''Jun'',
                 ''Jul'', ''Aug'', ''Sep'', ''Oct'', ''Nov'', ''Dec'']"

text \<open>
  \<open>strftime("%b %d, %Y \<dots> %I:%M %p")\<close> in the C locale, with the middle dot (code point
  183) between the date and the time. \<open>%Y\<close> is written with four digits, which is what
  every platform prints for the years from 1000 on.
\<close>

definition display_time_of :: "datetime \<Rightarrow> string" where
  "display_time_of dt =
     month_abbr ! nat (month dt - 1) @ '' '' @ zpad 2 (day dt) @ '', '' @ zpad 4 (year dt) @
     '' '' @ [char_of (183 :: nat)] @ '' '' @
     zpad 2 (if hour dt mod 12 = 0 then 12 else hour dt mod 12) @ '':'' @
     zpad 2 (minute dt) @ '' '' @ (if hour dt < 12 then ''AM'' else ''PM'')"

subsection \<open>Users\<close>

text \<open>
  \<open>INSERT INTO users\<close>: \<open>username\<close> is \<open>UNIQUE\<close>, \<open>is_admin\<close> is \<open>DEFAULT 0\<close> when the
  statement gives no value for it.
\<close>

definition users_is_admin_default :: int where
  "users_is_admin_default = 0"

definition insert_user :: "string \<Rightarrow> string \<Rightarrow> int option \<Rightarrow> tables \<Rightarrow> error + tables" where
  "insert_user name ph adm t =
     (if name \<in> set (map users_username (users t)) then Inl IntegrityError
      else
        let i = next_rowid (users_seq t) (map users_id (users t)) in
        Inr (t\<lparr>users := users t @
                 [\<lparr>users_id = i, users_username = name, users_password_hash = ph,
                   users_is_admin = (case adm of None \<Rightarrow> users_is_admin_default | Some a \<Rightarrow> a)\<rparr>],
               users_seq := i\<rparr>))"

definition user_exists :: "string \<Rightarrow> world \<Rightarrow> bool \<times> world" where
  "user_exists name w =
     (let w1 = execute (SelectUserExists name) w in
      (filter (\<lambda>u. users_username u = name) (users (txn w1)) \<noteq> [], w1))"

definition create_user :: "string \<Rightarrow> string \<Rightarrow> world \<Rightarrow> (error + unit) \<times> world" where
  "create_user name ph w =
     (let w1 = execute (InsertUser name) w in
      case insert_user name ph None (txn w1) of
        Inl e \<Rightarrow> (Inl e, w1)
      | Inr t \<Rightarrow> (Inr (), commit (w1\<lparr>txn := t\<rparr>)))"

definition fetch_user_by_username :: "string \<Rightarrow> world \<Rightarrow> user_row option \<times> world" where
  "fetch_user_by_username name w =
     (let w1 = execute (SelectUserByUsername name) w in
      (find (\<lambda>u. users_username u = name) (users (txn w1)), w1))"

text \<open>
  \<open>ensure_admin_exists\<close>; \<open>gen_hash\<close> is werkzeug's \<open>generate_password_hash\<close> with the
  salt it draws for this call.
\<close>

definition ensure_admin_exists :: "(string \<Rightarrow> string) \<Rightarrow> world \<Rightarrow> (error + unit) \<times> world" where
  "ensure_admin_exists gen_hash w =
     (let w1 = execute SelectAdminCount w in
      if length (filter (\<lambda>u. users_is_admin u = 1) (users (txn w1))) = 0 then
        let w2 = execute InsertAdmin w1 in
        (case insert_user ''admin'' (gen_hash ''adminpass'') (Some 1) (txn w2) of
           Inl e \<Rightarrow> (Inl e, w2)
         | Inr t \<Rightarrow> (Inr (), commit (w2\<lparr>txn := t\<rparr>)))
      else (Inr (), w1))"

subsection \<open>Posts and likes\<close>

text \<open>
  \<open>INSERT INTO posts\<close> and \<open>INSERT OR IGNORE INTO likes\<close>. SQLite does not enforce the
  foreign keys (the code never switches them on), so only \<open>UNIQUE (user_id, post_id)\<close>
  can reject a row, and \<open>OR IGNORE\<close> turns that rejection into no change.
\<close>

definition insert_post :: "nat \<Rightarrow> string \<Rightarrow> string \<Rightarrow> string \<Rightarrow> tables \<Rightarrow> tables" where
  "insert_post uid path cap ts t =
     (let i = next_rowid (posts_seq t) (map posts_id (posts t)) in
      t\<lparr>posts := posts t @
           [\<lparr>posts_id = i, posts_user_id = uid, posts_image_path = path,
             posts_caption = cap, posts_created_at = ts\<rparr>],
         posts_seq := i\<rparr>)"

definition insert_or_ignore_like :: "nat \<Rightarrow> nat \<Rightarrow> string \<Rightarrow> tables \<Rightarrow> tables" where
  "insert_or_ignore_like uid pid ts t =
     (if filter (\<lambda>l. likes_user_id l = uid \<and> likes_post_id l = pid) (likes t) \<noteq> [] then t
      else
        let i = next_rowid (likes_seq t) (map likes_id (likes t)) in
        t\<lparr>likes := likes t @
             [\<lparr>likes_id = i, likes_user_id = uid, likes_post_id = pid, likes_created_at = ts\<rparr>],
           likes_seq := i\<rparr>)"

text \<open>\<open>now\<close> is what \<open>datetime.now(timezone.utc)\<close> returns at the call.\<close>

definition create_post :: "datetime \<Rightarrow> nat \<Rightarrow> string \<Rightarrow> string \<Rightarrow> world \<Rightarrow> world" where
  "create_post now uid image_filename cap w =
     (let w1 = execute (InsertPost uid image_filename) w in
      commit (w1\<lparr>txn := insert_post uid image_filename cap (isoformat now) (txn w1)\<rparr>))"

text \<open>
  The rows of \<open>posts JOIN users ON posts.user_id = users.id LEFT JOIN likes ON
  likes.post_id = posts.id GROUP BY posts.id\<close>, in table order. \<open>users.id\<close> and
  \<open>posts.id\<close> are primary keys: a post joins the one user that owns it (a post without
  one drops out of the inner join), each group is one post, and \<open>COUNT(likes.id)\<close>
  counts the likes rows of that post.
\<close>

definition owner_of :: "tables \<Rightarrow> post_row \<Rightarrow> user_row option" where
  "owner_of t p = find (\<lambda>u. users_id u = posts_user_id p) (users t)"

definition like_count_of :: "tables \<Rightarrow> nat \<Rightarrow> nat" where
  "like_count_of t pid = length (filter (\<lambda>l. likes_post_id l = pid) (likes t))"

fun join_rows :: "tables \<Rightarrow> post_row list \<Rightarrow> (post_row \<times> user_row \<times> nat) list" where
  "join_rows t [] = []"
| "join_rows t (p # ps) =
     (case owner_of t p of
        None \<Rightarrow> join_rows t ps
      | Some u \<Rightarrow> (p, u, like_count_of t (posts_id p)) # join_rows t ps)"

definition joined_posts :: "tables \<Rightarrow> (post_row \<times> user_row \<times> nat) list" where
  "joined_posts t = join_rows t (posts t)"

record feed_row =
  row_id :: nat
  row_image_path :: string
  row_caption :: string
  row_created_at :: string
  row_username :: string
  row_like_count :: nat

definition feed_row_of :: "post_row \<times> user_row \<times> nat \<Rightarrow> feed_row" where
  "feed_row_of j =
     (case j of (p, u, n) \<Rightarrow>
        \<lparr>row_id = posts_id p, row_image_path = posts_image_path p,
         row_caption = posts_caption p, row_created_at = posts_created_at p,
         row_username = users_username u, row_like_count = n\<rparr>)"

text \<open>
  The \<open>ORDER BY\<close> clauses of \<open>order_map\<close>. Text compares code point by code point, as
  SQLite's default collation does.
\<close>

definition order_map :: "(string \<times> order_term list) list" where
  "order_map =
     [(''recent'', [CreatedAtDesc]),
      (''likes'', [LikeCountDesc, CreatedAtDesc])]"

definition order_clause :: "string \<Rightarrow> order_term list" where
  "order_clause sorting =
     (case map_of order_map sorting of
        Some c \<Rightarrow> c
      | None \<Rightarrow> (case map_of order_map ''recent'' of Some c \<Rightarrow> c | None \<Rightarrow> []))"

fun term_before :: "order_term \<Rightarrow> feed_row \<Rightarrow> feed_row \<Rightarrow> bool" where
  "term_before CreatedAtDesc a b = (row_created_at b < row_created_at a)"
| "term_before LikeCountDesc a b = (row_like_count b < row_like_count a)"

text \<open>\<open>precedes c a b\<close>: the clause \<open>c\<close> lets row \<open>a\<close> stand before row \<open>b\<close>.\<close>

fun precedes :: "order_term list \<Rightarrow> feed_row \<Rightarrow> feed_row \<Rightarrow> bool" where
  "precedes [] a b = True"
| "precedes (c # cs) a b = (term_before c a b \<or> (\<not> term_before c b a \<and> precedes cs a b))"

text \<open>
  SQL leaves the relative order of rows that tie on every term of the clause to the
  engine. The model sorts the grouped rows by insertion, which keeps tied rows in the
  order the groups were produced.
\<close>

fun insert_row :: "('a \<Rightarrow> 'a \<Rightarrow> bool) \<Rightarrow> 'a \<Rightarrow> 'a list \<Rightarrow> 'a list" where
  "insert_row le x [] = [x]"
| "insert_row le x (y # ys) = (if le x y then x # y # ys else y # insert_row le x ys)"

definition order_by :: "('a \<Rightarrow> 'a \<Rightarrow> bool) \<Rightarrow> 'a list \<Rightarrow> 'a list" where
  "order_by le xs = foldr (insert_row le) xs []"

definition fetch_posts :: "string \<Rightarrow> world \<Rightarrow> feed_row list \<times> world" where
  "fetch_posts sorting w =
     (let c = order_clause sorting;
          w1 = execute (SelectPosts c) w
      in (order_by (precedes c) (map feed_row_of (joined_posts (txn w1))), w1))"

record post_detail =
  post_id :: nat
  post_user_id :: nat
  post_image_path :: string
  post_caption :: string
  post_created_at :: string
  post_username :: string
  post_like_count :: nat

definition post_detail_of :: "post_row \<times> user_row \<times> nat \<Rightarrow> post_detail" where
  "post_detail_of j =
     (case j of (p, u, n) \<Rightarrow>
        \<lparr>post_id = posts_id p, post_user_id = posts_user_id p,
         post_image_path = posts_image_path p, post_caption = posts_caption p,
         post_created_at = posts_created_at p, post_username = users_username u,
         post_like_count = n\<rparr>)"

definition fetch_post_by_id :: "nat \<Rightarrow> world \<Rightarrow> post_detail option \<times> world" where
  "fetch_post_by_id pid w =
     (let w1 = execute (SelectPostById pid) w in
      (map_option post_detail_of
         (find (\<lambda>j. posts_id (fst j) = pid) (joined_posts (txn w1))), w1))"

definition get_user_liked_post_ids :: "nat \<Rightarrow> world \<Rightarrow> nat set \<times> world" where
  "get_user_liked_post_ids uid w =
     (let w1 = execute (SelectLikedPostIds uid) w in
      (set (map likes_post_id (filter (\<lambda>l. likes_user_id l = uid) (likes (txn w1)))), w1))"

definition user_has_liked :: "nat \<Rightarrow> nat \<Rightarrow> world \<Rightarrow> bool \<times> world" where
  "user_has_liked uid pid w =
     (let w1 = execute (SelectUserHasLiked uid pid) w in
      (filter (\<lambda>l. likes_user_id l = uid \<and> likes_post_id l = pid) (likes (txn w1)) \<noteq> [], w1))"

definition add_like :: "datetime \<Rightarrow> nat \<Rightarrow> nat \<Rightarrow> world \<Rightarrow> world" where
  "add_like now uid pid w =
     (let w1 = execute (InsertOrIgnoreLike uid pid) w in
      commit (w1\<lparr>txn := insert_or_ignore_like uid pid (isoformat now) (txn w1)\<rparr>))"

definition remove_like :: "nat \<Rightarrow> nat \<Rightarrow> world \<Rightarrow> world" where
  "remove_like uid pid w =
     (let w1 = execute (DeleteLike uid pid) w;
          t = txn w1
      in commit (w1\<lparr>txn :=
           t\<lparr>likes := filter (\<lambda>l. \<not> (likes_user_id l = uid \<and> likes_post_id l = pid)) (likes t)\<rparr>\<rparr>))"

subsection \<open>Removing a post and its image\<close>

text \<open>\<open>os.path.join\<close>, \<open>os.path.exists\<close> and \<open>os.remove\<close> on a POSIX host.\<close>

definition path_join :: "string \<Rightarrow> string \<Rightarrow> string" where
  "path_join a b =
     (if b \<noteq> [] \<and> hd b = CHR ''/'' then b
      else if a = [] \<or> last a = CHR ''/'' then a @ b
      else a @ ''/'' @ b)"

definition path_exists :: "string \<Rightarrow> world \<Rightarrow> bool \<times> world" where
  "path_exists p w = (files w p \<noteq> None, w\<lparr>trace := trace w @ [PathExists p]\<rparr>)"

definition os_remove :: "string \<Rightarrow> world \<Rightarrow> (error + unit) \<times> world" where
  "os_remove p w =
     (let w1 = w\<lparr>trace := trace w @ [OsRemove p]\<rparr> in
      case files w1 p of
        None \<Rightarrow> (Inl FileNotFoundError, w1)
      | Some Directory \<Rightarrow> (Inl IsADirectoryError, w1)
      | Some (File ok) \<Rightarrow>
          if ok then (Inr (), w1\<lparr>files := (files w1)(p := None)\<rparr>)
          else (Inl PermissionError, w1))"

text \<open>\<open>app_dir\<close> is \<open>os.path.dirname(__file__)\<close>, the directory of \<open>app.py\<close>.\<close>

definition remove_post :: "string \<Rightarrow> post_detail \<Rightarrow> world \<Rightarrow> (error + unit) \<times> world" where
  "remove_post app_dir post w =
     (let w1 = execute (DeleteLikesOfPost (post_id post)) w;
          t1 = txn w1;
          w2 = w1\<lparr>txn := t1\<lparr>likes := filter (\<lambda>l. likes_post_id l \<noteq> post_id post) (likes t1)\<rparr>\<rparr>;
          w3 = execute (DeletePost (post_id post)) w2;
          t3 = txn w3;
          w4 = w3\<lparr>txn := t3\<lparr>posts := filter (\<lambda>p. posts_id p \<noteq> post_id post) (posts t3)\<rparr>\<rparr>;
          w5 = commit w4;
          uploads_dir = path_join app_dir ''uploads'';
          image_path = path_join uploads_dir (post_image_path post);
          (found, w6) = path_exists image_path w5
      in if found then os_remove image_path w6 else (Inr (), w6))"

subsection \<open>Formatting rows for the templates\<close>

record post_view =
  view_id :: nat
  view_image_path :: string
  view_caption :: string
  view_username :: string
  view_created_at :: datetime
  view_display_time :: string
  view_like_count :: nat
  view_liked :: bool

fun format_rows :: "host \<Rightarrow> nat set \<Rightarrow> feed_row list \<Rightarrow> error + post_view list" where
  "format_rows h liked_set [] = Inr []"
| "format_rows h liked_set (row # rows) =
     (case fromisoformat (row_created_at row) of
        Inl e \<Rightarrow> Inl e
      | Inr parsed \<Rightarrow>
          (case astimezone h (IST h) parsed of
             Inl e \<Rightarrow> Inl e
           | Inr created_at \<Rightarrow>
               (case format_rows h liked_set rows of
                  Inl e \<Rightarrow> Inl e
                | Inr formatted \<Rightarrow>
                    Inr (\<lparr>view_id = row_id row, view_image_path = row_image_path row,
                          view_caption = row_caption row, view_username = row_username row,
                          view_created_at = created_at,
                          view_display_time = display_time_of created_at,
                          view_like_count = row_like_count row,
                          view_liked = (row_id row \<in> liked_set)\<rparr> # formatted))))"

definition format_posts_for_view ::
  "host \<Rightarrow> feed_row list \<Rightarrow> nat set option \<Rightarrow> error + post_view list" where
  "format_posts_for_view h rows liked_ids =
     format_rows h (case liked_ids of None \<Rightarrow> {} | Some s \<Rightarrow> s) rows"

subsection \<open>Requests and responses\<close>

datatype http_method = GET | POST

text \<open>
  The Flask session: \<open>login\<close> clears it and then stores the three keys together, and
  \<open>logout\<close> clears it, so it is either empty or holds all three.
\<close>

record session_data =
  sess_user_id :: nat
  sess_username :: string
  sess_is_admin :: bool

record request =
  http_method :: http_method
  form :: "string \<Rightarrow> string option"
  referrer :: "string option"
  session :: "session_data option"

text \<open>\<open>request.form.get(key, default)\<close>\<close>

definition form_get :: "request \<Rightarrow> string \<Rightarrow> string \<Rightarrow> string" where
  "form_get req k d = (case form req k of None \<Rightarrow> d | Some v \<Rightarrow> v)"

text \<open>
  \<open>str.isspace\<close> on the code points below 256, and \<open>str.strip()\<close>.
\<close>

definition isspace :: "char \<Rightarrow> bool" where
  "isspace c = ((of_char c :: nat) \<in> {9, 10, 11, 12, 13, 28, 29, 30, 31, 32, 133, 160})"

definition strip :: "string \<Rightarrow> string" where
  "strip s = rev (dropWhile isspace (rev (dropWhile isspace s)))"

text \<open>
  A response: a redirect (to \<open>url_for\<close> of an endpoint, or to a URL) with the messages
  flashed (text, category), a rendered template with its posts, or an exception that
  left the view function.
\<close>

datatype target = UrlFor string | Url string

datatype response =
    Redirect target "(string \<times> string) list"
  | Render string "post_view list"
  | Raised error

type_synonym view = "request \<Rightarrow> world \<Rightarrow> response \<times> world"

definition login_required :: "view \<Rightarrow> view" where
  "login_required v req w =
     (if session req = None
      then (Redirect (UrlFor ''login'') [(''Please log in to continue.'', ''warning'')], w)
      else v req w)"

definition admin_required :: "view \<Rightarrow> view" where
  "admin_required v req w =
     (if \<not> (case session req of None \<Rightarrow> False | Some s \<Rightarrow> sess_is_admin s)
      then (Redirect (UrlFor ''feed'')
              [(''You do not have permission to perform this action.'', ''danger'')], w)
      else v req w)"

definition register :: "(string \<Rightarrow> string) \<Rightarrow> view" where
  "register gen_hash req w =
     (if http_method req = POST then
        let username = strip (form_get req ''username'' '''');
            password = form_get req ''password'' ''''
        in
        if username = [] \<or> password = [] then
          (Redirect (UrlFor ''register'')
             [(''Username and password are required.'', ''danger'')], w)
        else
          let (taken, w1) = user_exists username w in
          if taken then
            (Redirect (UrlFor ''register'')
               [(''That username is already taken.'', ''warning'')], w1)
          else
            (case create_user username (gen_hash password) w1 of
               (Inl e, w2) \<Rightarrow> (Raised e, w2)
             | (Inr _, w2) \<Rightarrow>
                 (Redirect (UrlFor ''login'')
                    [(''Account created successfully! Please log in.'', ''success'')], w2))
      else (Render ''register.html'' [], w))"

text \<open>The views behind \<open>/feed\<close> and \<open>/leaderboard\<close>, before \<open>login_required\<close> wraps them.\<close>

definition list_view :: "string \<Rightarrow> string \<Rightarrow> host \<Rightarrow> view" where
  "list_view sorting template h req w =
     (let (raw_posts, w1) = fetch_posts sorting w in
      case session req of
        None \<Rightarrow> (Raised KeyError, w1)
      | Some s \<Rightarrow>
          let (liked_ids, w2) = get_user_liked_post_ids (sess_user_id s) w1 in
          (case format_posts_for_view h raw_posts (Some liked_ids) of
             Inl e \<Rightarrow> (Raised e, w2)
           | Inr views \<Rightarrow> (Render template views, w2)))"

definition feed :: "host \<Rightarrow> view" where
  "feed h = login_required (list_view ''recent'' ''feed.html'' h)"

definition leaderboard :: "host \<Rightarrow> view" where
  "leaderboard h = login_required (list_view ''likes'' ''leaderboard.html'' h)"

definition delete_post_view :: "string \<Rightarrow> nat \<Rightarrow> view" where
  "delete_post_view app_dir pid req w =
     (let (post, w1) = fetch_post_by_id pid w in
      case post of
        None \<Rightarrow> (Redirect (UrlFor ''feed'') [(''Post not found.'', ''warning'')], w1)
      | Some p \<Rightarrow>
          (case remove_post app_dir p w1 of
             (Inl e, w2) \<Rightarrow> (Raised e, w2)
           | (Inr _, w2) \<Rightarrow> (Redirect (UrlFor ''feed'') [(''Post deleted.'', ''info'')], w2)))"

definition delete_post :: "string \<Rightarrow> nat \<Rightarrow> view" where
  "delete_post app_dir pid = login_required (admin_required (delete_post_view app_dir pid))"

definition toggle_like_view :: "datetime \<Rightarrow> nat \<Rightarrow> view" where
  "toggle_like_view now pid req w =
     (let (post, w1) = fetch_post_by_id pid w in
      case post of
        None \<Rightarrow> (Redirect (UrlFor ''feed'') [(''Post not found.'', ''warning'')], w1)
      | Some p \<Rightarrow>
          (case session req of
             None \<Rightarrow> (Raised KeyError, w1)
           | Some s \<Rightarrow>
               let uid = sess_user_id s;
                   (liked, w2) = user_has_liked uid pid w1;
                   w3 = (if liked then remove_like uid pid w2 else add_like now uid pid w2)
               in (Redirect
                     (case referrer req of
                        None \<Rightarrow> UrlFor ''feed''
                      | Some r \<Rightarrow> if r = [] then UrlFor ''feed'' else Url r) [], w3)))"

definition toggle_like :: "datetime \<Rightarrow> nat \<Rightarrow> view" where
  "toggle_like now pid = login_required (toggle_like_view now pid)"

text \<open>A request served by the application: connection attached, view run, connection closed.\<close>

definition serve :: "view \<Rightarrow> request \<Rightarrow> world \<Rightarrow> response \<times> world" where
  "serve v req w =
     (let (r, w1) = v req (attach_db_connection w) in (r, close_db_connection w1))"

subsection \<open>Start-up\<close>

text \<open>
  \<open>create_tables\<close>: every statement is \<open>CREATE TABLE IF NOT EXISTS\<close>, which leaves the
  rows of an existing table alone and makes a missing table empty.
\<close>

definition create_tables :: "world \<Rightarrow> world" where
  "create_tables w =
     commit (execute CreateTableLikes (execute CreateTablePosts (execute CreateTableUsers w)))"

text \<open>
  The database part of \<open>create_app\<close>: \<open>with sqlite3.connect(...) as db\<close> commits when its
  body ends normally and rolls back when it raises.
\<close>

definition create_app :: "(string \<Rightarrow> string) \<Rightarrow> world \<Rightarrow> (error + unit) \<times> world" where
  "create_app gen_hash w =
     (let w1 = create_tables (attach_db_connection w);
          (r, w2) = ensure_admin_exists gen_hash w1
      in case r of
           Inl e \<Rightarrow> (Inl e, close_db_connection w2)
         | Inr _ \<Rightarrow> (Inr (), close_db_connection (commit w2)))"

subsection \<open>The running application\<close>

text \<open>
  What can happen to the world once the application runs: it is started again, or it
  serves a request. \<open>CreatePostWrite\<close> is the database write of the \<open>/upload\<close> view.
\<close>

datatype operation =
    Restart "string \<Rightarrow> string"
  | RegisterRequest "string \<Rightarrow> string" request
  | CreatePostWrite datetime nat string string
  | ToggleLikeRequest datetime nat request
  | DeletePostRequest string nat request
  | ShowFeed host request
  | ShowLeaderboard host request

fun step :: "operation \<Rightarrow> world \<Rightarrow> world" where
  "step (Restart gh) w = snd (create_app gh w)"
| "step (RegisterRequest gh req) w = snd (serve (register gh) req w)"
| "step (CreatePostWrite now uid image_filename cap) w =
     close_db_connection (create_post now uid image_filename cap (attach_db_connection w))"
| "step (ToggleLikeRequest now pid req) w = snd (serve (toggle_like now pid) req w)"
| "step (DeletePostRequest app_dir pid req) w = snd (serve (delete_post app_dir pid) req w)"
| "step (ShowFeed h req) w = snd (serve (feed h) req w)"
| "step (ShowLeaderboard h req) w = snd (serve (leaderboard h) req w)"

text \<open>
  \<open>running gh w\<close>: the world \<open>w\<close> is reached by a first start on a fresh database file,
  where \<open>gh\<close> hashed the default password, followed by any operations.
\<close>

inductive running :: "(string \<Rightarrow> string) \<Rightarrow> world \<Rightarrow> bool" where
  first_start: "disk w = empty_tables \<Longrightarrow> create_app gh w = (Inr (), w') \<Longrightarrow> running gh w'"
| later: "running gh w \<Longrightarrow> running gh (step x w)"

text \<open>The rows that \<open>SELECT COUNT(*) FROM users WHERE is_admin = 1\<close> counts.\<close>

definition admins :: "world \<Rightarrow> user_row list" where
  "admins w = filter (\<lambda>u. users_is_admin u = 1) (users (disk w))"

definition default_admin :: "(string \<Rightarrow> string) \<Rightarrow> nat \<Rightarrow> user_row" where
  "default_admin gh i =
     \<lparr>users_id = i, users_username = ''admin'', users_password_hash = gh ''adminpass'',
      users_is_admin = 1\<rparr>"

subsection \<open>Notions used in the statements\<close>

text \<open>The path \<open>remove_post\<close> computes for the image of a post.\<close>

definition image_path_of :: "string \<Rightarrow> post_detail \<Rightarrow> string" where
  "image_path_of app_dir post = path_join (path_join app_dir ''uploads'') (post_image_path post)"

text \<open>The tables without the post \<open>pid\<close> and without the likes that refer to it.\<close>

definition without_post :: "nat \<Rightarrow> tables \<Rightarrow> tables" where
  "without_post pid t =
     t\<lparr>likes := filter (\<lambda>l. likes_post_id l \<noteq> pid) (likes t),
       posts := filter (\<lambda>p. posts_id p \<noteq> pid) (posts t)\<rparr>"

definition post_deleted :: response where
  "post_deleted = Redirect (UrlFor ''feed'') [(''Post deleted.'', ''info'')]"


text \<open>
  A \<open>datetime\<close> as \<open>datetime.now(timezone.utc)\<close> returns it: the fields of a date and a
  time of day, with offset 0.
\<close>

definition valid_utc :: "datetime \<Rightarrow> bool" where
  "valid_utc dt \<longleftrightarrow>
     1 \<le> year dt \<and> year dt \<le> 9999 \<and> 1 \<le> month dt \<and> month dt \<le> 12 \<and>
     1 \<le> day dt \<and> day dt \<le> days_in_month (year dt) (month dt) \<and>
     0 \<le> hour dt \<and> hour dt < 24 \<and> 0 \<le> minute dt \<and> minute dt < 60 \<and>
     0 \<le> second dt \<and> second dt < 60 \<and>
     0 \<le> microsecond dt \<and> microsecond dt < 1000000 \<and> utcoffset dt = Some 0"

text \<open>
  A stored \<open>created_at\<close> text \<open>renders\<close> on a host when \<open>format_posts_for_view\<close> gets
  through it: it parses, and the conversion to \<open>IST\<close> stays within the years 1..9999.
  It is \<open>aware\<close> when it parses to a \<open>datetime\<close> that carries an offset.
  \<open>ist_offset_at h s\<close> is the offset that \<open>IST\<close> has on the host \<open>h\<close> at the instant the
  text \<open>s\<close> stores.
\<close>

definition renders :: "host \<Rightarrow> string \<Rightarrow> bool" where
  "renders h s =
     (case fromisoformat s of
        Inl _ \<Rightarrow> False
      | Inr dt \<Rightarrow> (case astimezone h (IST h) dt of Inl _ \<Rightarrow> False | Inr _ \<Rightarrow> True))"




section \<open>Example states and requests\<close>

definition world0 :: world where
  "world0 = \<lparr>disk = empty_tables, txn = empty_tables, files = (\<lambda>_. None), trace = []\<rparr>"

definition register_request :: "string \<Rightarrow> string \<Rightarrow> request" where
  "register_request u p =
     \<lparr>http_method = POST, form = [''username'' \<mapsto> u, ''password'' \<mapsto> p],
      referrer = None, session = None\<rparr>"

definition plain_hash :: "string \<Rightarrow> string" where
  "plain_hash p = ''pbkdf2$'' @ p"

text \<open>
  A database with four users and two posts: post 1 is the older one and has two likes,
  post 2 is the newer one and has three.
\<close>

definition example_users :: "user_row list" where
  "example_users =
     [default_admin plain_hash 1,
      \<lparr>users_id = 2, users_username = ''bob'', users_password_hash = plain_hash ''b'',
       users_is_admin = 0\<rparr>,
      \<lparr>users_id = 3, users_username = ''eve'', users_password_hash = plain_hash ''e'',
       users_is_admin = 0\<rparr>,
      \<lparr>users_id = 4, users_username = ''dan'', users_password_hash = plain_hash ''d'',
       users_is_admin = 0\<rparr>]"

definition example_posts :: "post_row list" where
  "example_posts =
     [\<lparr>posts_id = 1, posts_user_id = 2, posts_image_path = ''20240101100000000000_a.png'',
       posts_caption = ''first'', posts_created_at = ''2024-01-01T10:00:00+00:00''\<rparr>,
      \<lparr>posts_id = 2, posts_user_id = 3, posts_image_path = ''20240102203000500000_b.png'',
       posts_caption = ''second'', posts_created_at = ''2024-01-02T20:30:00.500000+00:00''\<rparr>]"

definition example_like :: "nat \<Rightarrow> nat \<Rightarrow> nat \<Rightarrow> like_row" where
  "example_like i uid pid =
     \<lparr>likes_id = i, likes_user_id = uid, likes_post_id = pid,
      likes_created_at = ''2024-01-03T08:00:00+00:00''\<rparr>"

definition example_tables :: tables where
  "example_tables =
     \<lparr>users = example_users, posts = example_posts,
      likes = [example_like 1 1 1, example_like 2 1 2, example_like 3 2 2,
               example_like 4 3 1, example_like 5 3 2],
      users_seq = 4, posts_seq = 2, likes_seq = 5\<rparr>"

definition example_world :: world where
  "example_world =
     \<lparr>disk = example_tables, txn = example_tables,
      files = [''/srv/app/uploads/20240101100000000000_a.png'' \<mapsto> File True,
               ''/srv/app/uploads'' \<mapsto> Directory],
      trace = []\<rparr>"

definition session_request :: "nat \<Rightarrow> string \<Rightarrow> bool \<Rightarrow> request" where
  "session_request uid name adm =
     \<lparr>http_method = POST, form = Map.empty, referrer = None,
      session = Some \<lparr>sess_user_id = uid, sess_username = name, sess_is_admin = adm\<rparr>\<rparr>"

definition example_now :: datetime where
  "example_now =
     \<lparr>year = 2024, month = 1, day = 3, hour = 12, minute = 0, second = 0, microsecond = 0,
      utcoffset = Some 0\<rparr>"

text \<open>The two posts as \<open>fetch_post_by_id\<close> returns them.\<close>

definition example_post1 :: post_detail where
  "example_post1 =
     \<lparr>post_id = 1, post_user_id = 2, post_image_path = ''20240101100000000000_a.png'',
      post_caption = ''first'', post_created_at = ''2024-01-01T10:00:00+00:00'',
      post_username = ''bob'', post_like_count = 2\<rparr>"

definition example_post2 :: post_detail where
  "example_post2 =
     \<lparr>post_id = 2, post_user_id = 3, post_image_path = ''20240102203000500000_b.png'',
      post_caption = ''second'', post_created_at = ''2024-01-02T20:30:00.500000+00:00'',
      post_username = ''eve'', post_like_count = 3\<rparr>"

text \<open>The example world with an image file that \<open>os.remove\<close> is not allowed to delete.\<close>

definition locked_world :: world where
  "locked_world =
     example_world\<lparr>files :=
       [''/srv/app/uploads/20240101100000000000_a.png'' \<mapsto> File False]\<rparr>"

text \<open>
  Two hosts. \<open>tzdata_host\<close> has the IANA time zone database, whose zone \<open>Asia/Kolkata\<close>
  is given here by its offsets in seconds between its transitions (in seconds since
  1970-01-01 UTC): +05:30 since 1945-10-14T17:30:00 UTC, and +06:30 in the three years
  before. Its local time zone is five hours behind UTC. \<open>bare_host\<close> has no time zone
  database, so that \<open>IST\<close> falls back to the fixed offset there.
\<close>

definition tzdata_kolkata :: "int \<Rightarrow> int" where
  "tzdata_kolkata t =
     (if t < - 3645237208 then 21208
      else if t < - 3155694800 then 21200
      else if t < - 2019705670 then 19270
      else if t < - 891581400 then 19800
      else if t < - 872058600 then 23400
      else if t < - 862637400 then 19800
      else if t < - 764145000 then 23400
      else 19800)"

definition tzdata_host :: host where
  "tzdata_host =
     \<lparr>zoneinfo_db = [''Asia/Kolkata'' \<mapsto> tzdata_kolkata], local_utcoffset = (\<lambda>_. - 18000)\<rparr>"



text \<open>The responses of \<open>register\<close>.\<close>

definition fields_required :: response where
  "fields_required =
     Redirect (UrlFor ''register'') [(''Username and password are required.'', ''danger'')]"

definition username_taken :: response where
  "username_taken =
     Redirect (UrlFor ''register'') [(''That username is already taken.'', ''warning'')]"

definition registered_ok :: response where
  "registered_ok =
     Redirect (UrlFor ''login'')
       [(''Account created successfully! Please log in.'', ''success'')]"

section \<open>Registration\<close>

lemmas register_simps =
  register_def register_request_def world0_def form_get_def strip_def isspace_def
  user_exists_def create_user_def insert_user_def execute_def commit_def empty_tables_def
  next_rowid_def users_is_admin_default_def serve_def attach_db_connection_def
  close_db_connection_def plain_hash_def

lemma all_dropWhile: "(\<forall>x\<in>set (dropWhile P s). P x) \<longleftrightarrow> (\<forall>x\<in>set s. P x)"
  by (induction s) auto

lemma strip_Nil_iff: "strip s = [] \<longleftrightarrow> (\<forall>c\<in>set s. isspace c)"
  by (simp add: strip_def dropWhile_eq_Nil_conv all_dropWhile)

lemma next_rowid_fresh: "next_rowid s ids \<notin> set ids"
proof -
  have "fold max ids s = Max (set (s # ids))" by (rule Max.set_eq_fold [symmetric])
  then have "\<forall>i\<in>set ids. i \<le> fold max ids s" by simp
  then show ?thesis unfolding next_rowid_def by fastforce
qed

lemma serve_fst: "fst (serve v req w) = fst (v req (attach_db_connection w))"
  by (simp add: serve_def split: prod.splits)

lemma serve_snd:
  "snd (serve v req w) = close_db_connection (snd (v req (attach_db_connection w)))"
  by (simp add: serve_def split: prod.splits)

lemma register_cases:
  assumes "register gh req w = (r, w')"
  shows "(txn w' = txn w \<and> disk w' = disk w \<and> r \<noteq> registered_ok) \<or>
         (r = registered_ok \<and> http_method req = POST \<and>
          strip (form_get req ''username'' '''') \<noteq> [] \<and>
          strip (form_get req ''username'' '''') \<notin> set (map users_username (users (txn w))) \<and>
          users (txn w') = users (txn w) @ [last (users (txn w'))] \<and>
          users_username (last (users (txn w'))) = strip (form_get req ''username'' '''') \<and>
          users_is_admin (last (users (txn w'))) = 0 \<and>
          posts (txn w') = posts (txn w) \<and> likes (txn w') = likes (txn w) \<and>
          disk w' = txn w')"
  using assms
  by (auto simp: register_def user_exists_def create_user_def insert_user_def execute_def
      commit_def registered_ok_def users_is_admin_default_def Let_def filter_empty_conv
      split: if_splits sum.splits)

lemma register_taken:
  assumes "http_method req = POST"
    and "strip (form_get req ''username'' '''') \<in> set (map users_username (users (txn w)))"
  shows "txn (snd (register gh req w)) = txn w \<and> disk (snd (register gh req w)) = disk w \<and>
         (strip (form_get req ''username'' '''') \<noteq> [] \<and> form_get req ''password'' '''' \<noteq> []
            \<longrightarrow> fst (register gh req w) = username_taken)"
  using assms
  by (auto simp: register_def user_exists_def execute_def username_taken_def Let_def
      filter_empty_conv)

text \<open>
  Claim C3, as amended. A \<open>POST\<close> to \<open>register\<close> answers with the validation error
  exactly when the username is empty after trimming white space or the password is the
  empty string, and then it executes nothing and changes nothing: no user row is made.
  The password is taken as typed, it is not trimmed.
\<close>

theorem register_rejects_empty_fields:
  assumes "http_method req = POST"
  shows "(strip (form_get req ''username'' '''') = [] \<or> form_get req ''password'' '''' = []
            \<longrightarrow> register gen_hash req w = (fields_required, w)) \<and>
         (fst (register gen_hash req w) = fields_required
            \<longrightarrow> strip (form_get req ''username'' '''') = [] \<or>
                form_get req ''password'' '''' = [])"
  using assms
  by (auto simp: register_def fields_required_def user_exists_def create_user_def Let_def
      split: if_splits sum.splits prod.splits)

text \<open>
  Witness for C3: a username of blanks with a password, and a username with the empty
  password, are both turned away and leave the world as it was.
\<close>

theorem register_rejects_empty_fields_witness:
  "register plain_hash (register_request ''   '' ''secret'') world0 = (fields_required, world0) \<and>
   register plain_hash (register_request ''bob'' '''') world0 = (fields_required, world0)"
proof -
  have a: "http_method (register_request ''   '' ''secret'') = POST"
    and b: "http_method (register_request ''bob'' '''') = POST"
    by (simp_all add: register_request_def)
  have c: "strip (form_get (register_request ''   '' ''secret'') ''username'' '''') = []"
    by (simp add: register_simps)
  have d: "form_get (register_request ''bob'' '''') ''password'' '''' = []"
    by (simp add: register_simps)
  show ?thesis
    using register_rejects_empty_fields [OF a, of plain_hash world0]
      register_rejects_empty_fields [OF b, of plain_hash world0] c d
    by simp
qed

text \<open>
  Counterexample to C3 as stated: the password of three blanks is empty after trimming,
  yet \<open>register\<close> accepts it and stores the user \<open>bob\<close>.
\<close>

theorem register_accepts_blank_password:
  "strip ''   '' = [] \<and>
   fst (register plain_hash (register_request ''bob'' ''   '') world0) = registered_ok \<and>
   map users_username
     (users (disk (snd (register plain_hash (register_request ''bob'' ''   '') world0))))
     = [''bob'']"
  by (simp add: register_simps registered_ok_def Let_def)

text \<open>
  Claim C8. When a registration request has succeeded, a following registration request
  with the same username (after trimming) leaves the committed database as it is, the
  username still has exactly one row, and with a non-empty password the answer is the
  duplicate-username message.
\<close>

theorem second_register_is_duplicate:
  assumes first: "serve (register gh1) req1 w = (registered_ok, w1)"
    and post: "http_method req2 = POST"
    and same: "strip (form_get req2 ''username'' '''') = strip (form_get req1 ''username'' '''')"
  shows "disk (snd (serve (register gh2) req2 w1)) = disk w1 \<and>
         length (filter (\<lambda>u. users_username u = strip (form_get req1 ''username'' ''''))
                   (users (disk (snd (serve (register gh2) req2 w1))))) = 1 \<and>
         (form_get req2 ''password'' '''' \<noteq> [] \<longrightarrow>
            fst (serve (register gh2) req2 w1) = username_taken)"
proof -
  let ?n = "strip (form_get req1 ''username'' '''')"
  obtain w1' where run: "register gh1 req1 (attach_db_connection w) = (registered_ok, w1')"
    and w1: "w1 = close_db_connection w1'"
    using first by (auto simp: serve_def split: prod.splits)
  from register_cases [OF run]
  obtain u where fresh: "?n \<notin> set (map users_username (users (disk w)))"
    and nonempty: "?n \<noteq> []"
    and t: "users (txn w1') = users (disk w) @ [u]"
    and u: "users_username u = ?n"
    and d: "disk w1' = txn w1'"
    by (auto simp: attach_db_connection_def)
  have users1: "users (disk w1) = users (disk w) @ [u]"
    using t d w1 by (simp add: close_db_connection_def)
  have taken: "strip (form_get req2 ''username'' '''')
                 \<in> set (map users_username (users (txn (attach_db_connection w1))))"
    using users1 u same by (simp add: attach_db_connection_def)
  note second = register_taken [OF post taken, of gh2]
  have same_disk: "disk (snd (serve (register gh2) req2 w1)) = disk w1"
    using second by (simp add: serve_snd close_db_connection_def attach_db_connection_def)
  have one: "length (filter (\<lambda>u. users_username u = ?n) (users (disk w1))) = 1"
  proof -
    have "filter (\<lambda>u. users_username u = ?n) (users (disk w)) = []"
      using fresh by (force simp: filter_empty_conv)
    then show ?thesis using users1 u by simp
  qed
  have resp: "form_get req2 ''password'' '''' \<noteq> [] \<longrightarrow>
                fst (serve (register gh2) req2 w1) = username_taken"
    using second nonempty same by (simp add: serve_fst)
  show ?thesis using same_disk one resp by simp
qed

text \<open>
  Witness for C8: \<open>bob\<close> registers, then \<open>bob\<close> is asked for again with another password.
\<close>

theorem second_register_is_duplicate_witness:
  "fst (serve (register plain_hash) (register_request ''bob'' ''other'')
          (snd (serve (register plain_hash) (register_request ''bob'' ''secret'') world0)))
     = username_taken \<and>
   map users_username
     (users (disk (snd (serve (register plain_hash) (register_request ''bob'' ''other'')
          (snd (serve (register plain_hash) (register_request ''bob'' ''secret'') world0))))))
     = [''bob'']"
proof -
  let ?w1 = "snd (serve (register plain_hash) (register_request ''bob'' ''secret'') world0)"
  have first: "serve (register plain_hash) (register_request ''bob'' ''secret'') world0
                 = (registered_ok, ?w1)"
    by (simp add: register_simps registered_ok_def Let_def)
  have post: "http_method (register_request ''bob'' ''other'') = POST"
    by (simp add: register_request_def)
  have same: "strip (form_get (register_request ''bob'' ''other'') ''username'' '''')
                = strip (form_get (register_request ''bob'' ''secret'') ''username'' '''')"
    by (simp add: register_request_def form_get_def)
  have pw: "form_get (register_request ''bob'' ''other'') ''password'' '''' \<noteq> []"
    by (simp add: register_request_def form_get_def)
  have users1: "map users_username (users (disk ?w1)) = [''bob'']"
    by (simp add: register_simps Let_def)
  from second_register_is_duplicate [OF first post same, of plain_hash] pw users1
  show ?thesis by simp
qed

text \<open>
  Claim C9. Every row that \<open>create_user\<close> inserts has the admin flag 0, and a
  registration request either leaves the users table as it is or appends one row whose
  admin flag is 0; the rows with a non-zero admin flag are the same before and after.
\<close>

theorem registration_never_admin:
  "(create_user name ph w = (Inr (), w') \<longrightarrow>
      (\<exists>u. users (txn w') = users (txn w) @ [u] \<and> users_username u = name \<and>
           users_is_admin u = 0 \<and> disk w' = txn w')) \<and>
   (serve (register gh) req w0 = (r, w0') \<longrightarrow>
      (users (disk w0') = users (disk w0) \<or>
       (\<exists>u. users (disk w0') = users (disk w0) @ [u] \<and> users_is_admin u = 0)) \<and>
      filter (\<lambda>u. users_is_admin u \<noteq> 0) (users (disk w0')) =
        filter (\<lambda>u. users_is_admin u \<noteq> 0) (users (disk w0)))"
proof (intro conjI impI)
  assume "create_user name ph w = (Inr (), w')"
  then show "\<exists>u. users (txn w') = users (txn w) @ [u] \<and> users_username u = name \<and>
           users_is_admin u = 0 \<and> disk w' = txn w'"
    by (auto simp: create_user_def insert_user_def execute_def commit_def
        users_is_admin_default_def Let_def split: if_splits sum.splits)
next
  assume s: "serve (register gh) req w0 = (r, w0')"
  then obtain w1 where run: "register gh req (attach_db_connection w0) = (r, w1)"
    and w0': "w0' = close_db_connection w1"
    by (auto simp: serve_def split: prod.splits)
  from register_cases [OF run]
  have c: "disk w1 = disk w0 \<or>
           (\<exists>u. users (disk w1) = users (disk w0) @ [u] \<and> users_is_admin u = 0)"
    by (auto simp: attach_db_connection_def)
  then show "users (disk w0') = users (disk w0) \<or>
       (\<exists>u. users (disk w0') = users (disk w0) @ [u] \<and> users_is_admin u = 0)"
    using w0' by (auto simp: close_db_connection_def)
  from c show "filter (\<lambda>u. users_is_admin u \<noteq> 0) (users (disk w0')) =
        filter (\<lambda>u. users_is_admin u \<noteq> 0) (users (disk w0))"
    using w0' by (auto simp: close_db_connection_def)
qed

text \<open>
  Witness for C9: the row stored for \<open>bob\<close> by a registration request, and the row
  stored by a direct \<open>create_user\<close>, both carry the admin flag 0.
\<close>

theorem registration_never_admin_witness:
  "map users_is_admin
     (users (disk (snd (serve (register plain_hash) (register_request ''bob'' ''secret'') world0))))
     = [0] \<and>
   map users_is_admin (users (txn (snd (create_user ''eve'' ''h'' world0)))) = [0]"
proof -
  let ?s = "serve (register plain_hash) (register_request ''bob'' ''secret'') world0"
  let ?c = "create_user ''eve'' ''h'' world0"
  have c: "?c = (Inr (), snd ?c)" by (simp add: register_simps Let_def)
  have s: "?s = (fst ?s, snd ?s)" by simp
  have n: "users (disk (snd ?s)) \<noteq> users (disk world0)"
    by (simp add: register_simps Let_def)
  have e: "users (disk world0) = []" "users (txn world0) = []"
    by (simp_all add: world0_def empty_tables_def)
  from registration_never_admin [of "''eve''" "''h''" world0 "snd ?c" plain_hash
      "register_request ''bob'' ''secret''" world0 "fst ?s" "snd ?s"] c s n e
  show ?thesis by auto
qed

section \<open>Start-up and the default administrator\<close>

lemma create_app_no_admin:
  assumes "admins w = []" and "''admin'' \<notin> set (map users_username (users (disk w)))"
  shows "fst (create_app gh w) = Inr () \<and>
         users (disk (snd (create_app gh w))) = users (disk w) @
           [default_admin gh (next_rowid (users_seq (disk w)) (map users_id (users (disk w))))] \<and>
         posts (disk (snd (create_app gh w))) = posts (disk w) \<and>
         likes (disk (snd (create_app gh w))) = likes (disk w)"
  using assms
  by (simp add: create_app_def create_tables_def ensure_admin_exists_def insert_user_def
      admins_def default_admin_def execute_def commit_def attach_db_connection_def
      close_db_connection_def Let_def)

lemma create_app_has_admin:
  assumes "admins w \<noteq> []"
  shows "fst (create_app gh w) = Inr () \<and> disk (snd (create_app gh w)) = disk w"
  using assms
  by (simp add: create_app_def create_tables_def ensure_admin_exists_def
      admins_def execute_def commit_def attach_db_connection_def close_db_connection_def Let_def)

lemma register_users:
  "users (disk (snd (serve (register gh) req w))) = users (disk w) \<or>
   (\<exists>u. users (disk (snd (serve (register gh) req w))) = users (disk w) @ [u] \<and>
        users_is_admin u = 0)"
proof -
  let ?a = "attach_db_connection w"
  obtain r w1 where run: "register gh req ?a = (r, w1)"
    by (cases "register gh req ?a")
  have a: "txn ?a = disk w" "disk ?a = disk w"
    by (simp_all add: attach_db_connection_def)
  have s: "disk (snd (serve (register gh) req w)) = disk w1"
    by (simp add: serve_snd run close_db_connection_def)
  from register_cases [OF run] show ?thesis unfolding s a by auto
qed

lemma create_post_users:
  "users (disk (close_db_connection (create_post now uid f c (attach_db_connection w))))
     = users (disk w)"
  by (simp add: create_post_def insert_post_def execute_def commit_def
      close_db_connection_def attach_db_connection_def Let_def)

lemma toggle_like_users:
  "users (disk (snd (serve (toggle_like now pid) req w))) = users (disk w)"
  by (simp add: serve_snd toggle_like_def login_required_def toggle_like_view_def
      fetch_post_by_id_def user_has_liked_def add_like_def remove_like_def
      insert_or_ignore_like_def execute_def commit_def
      close_db_connection_def attach_db_connection_def Let_def
      split: option.splits prod.splits)

lemma remove_post_users:
  "remove_post d p w = (r, w') \<Longrightarrow> users (disk w') = users (txn w)"
  by (auto simp: remove_post_def path_exists_def os_remove_def execute_def commit_def Let_def
      split: option.splits entry.splits prod.splits if_splits)

lemma delete_post_users:
  "users (disk (snd (serve (delete_post d pid) req w))) = users (disk w)"
proof -
  let ?a = "attach_db_connection w"
  have a: "txn ?a = disk w" "disk ?a = disk w"
    by (simp_all add: attach_db_connection_def)
  have "users (disk (snd (delete_post_view d pid req ?a))) = users (disk w)"
    using a
    by (auto simp: delete_post_view_def fetch_post_by_id_def Let_def execute_def
        split: option.splits prod.splits sum.splits dest!: remove_post_users)
  then show ?thesis
    using a by (simp add: serve_snd delete_post_def login_required_def admin_required_def
      close_db_connection_def)
qed

lemma list_view_disk:
  "disk (snd (serve (login_required (list_view srt tpl h)) req w)) = disk w"
  by (simp add: serve_snd login_required_def list_view_def fetch_posts_def
      get_user_liked_post_ids_def execute_def close_db_connection_def
      attach_db_connection_def Let_def split: option.splits sum.splits)

lemma step_admins:
  assumes "admins w \<noteq> []"
  shows "admins (step x w) = admins w"
proof (cases x)
  case (Restart gh)
  then show ?thesis using create_app_has_admin [OF assms, of gh] by (simp add: admins_def)
next
  case (RegisterRequest gh req)
  then show ?thesis using register_users [of gh req w] by (auto simp: admins_def)
next
  case (CreatePostWrite now uid f c)
  then show ?thesis by (simp add: admins_def create_post_users)
next
  case (ToggleLikeRequest now pid req)
  then show ?thesis by (simp add: admins_def toggle_like_users)
next
  case (DeletePostRequest d pid req)
  then show ?thesis by (simp add: admins_def delete_post_users)
next
  case (ShowFeed h req)
  then show ?thesis by (simp add: admins_def feed_def list_view_disk)
next
  case (ShowLeaderboard h req)
  then show ?thesis by (simp add: admins_def leaderboard_def list_view_disk)
qed

lemma running_admins: "running gh w \<Longrightarrow> admins w = [default_admin gh 1]"
proof (induction rule: running.induct)
  case (first_start w gh w')
  have "admins w = []" "''admin'' \<notin> set (map users_username (users (disk w)))"
    using first_start by (simp_all add: admins_def empty_tables_def)
  from create_app_no_admin [OF this, of gh] first_start show ?case
    by (simp add: admins_def empty_tables_def next_rowid_def default_admin_def)
next
  case (later gh w x)
  then show ?case using step_admins [of w x] by auto
qed

text \<open>
  Claim C5. Start-up on a database with no admin row, where the name \<open>admin\<close> is free (a
  fresh database in particular), succeeds and appends exactly one row, the default
  administrator \<open>admin\<close> with the hash of \<open>adminpass\<close>; start-up on a database that has an
  admin row changes nothing. Hence in every world reached from a first start on a fresh
  database by restarts and requests, the admin rows are exactly the one default
  administrator made by the first start. (A database with no admin row where a
  non-admin already holds the name \<open>admin\<close> is not among these worlds.)
\<close>

theorem bootstrap_admin:
  "(admins w = [] \<and> ''admin'' \<notin> set (map users_username (users (disk w))) \<longrightarrow>
      fst (create_app gh w) = Inr () \<and>
      (\<exists>i. users (disk (snd (create_app gh w))) = users (disk w) @ [default_admin gh i]) \<and>
      length (admins (snd (create_app gh w))) = 1) \<and>
   (disk w = empty_tables \<longrightarrow>
      fst (create_app gh w) = Inr () \<and>
      users (disk (snd (create_app gh w))) = [default_admin gh 1] \<and>
      running gh (snd (create_app gh w))) \<and>
   (admins w \<noteq> [] \<longrightarrow>
      fst (create_app gh w) = Inr () \<and> disk (snd (create_app gh w)) = disk w) \<and>
   (running gh0 w \<longrightarrow>
      admins w = [default_admin gh0 1] \<and>
      fst (create_app gh w) = Inr () \<and> disk (snd (create_app gh w)) = disk w)"
proof (intro conjI impI)
  assume a: "admins w = [] \<and> ''admin'' \<notin> set (map users_username (users (disk w)))"
  note n = create_app_no_admin [OF conjunct1 [OF a] conjunct2 [OF a], of gh]
  from n show "fst (create_app gh w) = Inr ()" by simp
  from n show "\<exists>i. users (disk (snd (create_app gh w))) = users (disk w) @ [default_admin gh i]"
    by blast
  from n a show "length (admins (snd (create_app gh w))) = 1"
    by (simp add: admins_def default_admin_def)
next
  assume e: "disk w = empty_tables"
  then have "admins w = []" "''admin'' \<notin> set (map users_username (users (disk w)))"
    by (simp_all add: admins_def empty_tables_def)
  note n = create_app_no_admin [OF this, of gh]
  from n show "fst (create_app gh w) = Inr ()" by simp
  from n e show "users (disk (snd (create_app gh w))) = [default_admin gh 1]"
    by (simp add: empty_tables_def next_rowid_def)
  from n have "create_app gh w = (Inr (), snd (create_app gh w))"
    by (metis prod.collapse)
  from running.first_start [OF e this] show "running gh (snd (create_app gh w))" .
next
  assume "admins w \<noteq> []"
  from create_app_has_admin [OF this, of gh]
  show "fst (create_app gh w) = Inr ()" "disk (snd (create_app gh w)) = disk w" by simp_all
next
  assume r: "running gh0 w"
  from running_admins [OF r] show a: "admins w = [default_admin gh0 1]" .
  then have "admins w \<noteq> []" by simp
  from create_app_has_admin [OF this, of gh]
  show "fst (create_app gh w) = Inr ()" "disk (snd (create_app gh w)) = disk w" by simp_all
qed

text \<open>
  Witness for C5: the first start on the empty database makes the default administrator;
  after \<open>bob\<close> registers it is still the only admin row, and a restart adds no account.
\<close>

theorem bootstrap_admin_witness:
  "users (disk (snd (create_app plain_hash world0))) = [default_admin plain_hash 1] \<and>
   admins (step (RegisterRequest plain_hash (register_request ''bob'' ''secret''))
            (snd (create_app plain_hash world0))) = [default_admin plain_hash 1] \<and>
   map users_username (users (disk (step (Restart plain_hash)
     (step (RegisterRequest plain_hash (register_request ''bob'' ''secret''))
            (snd (create_app plain_hash world0)))))) = [''admin'', ''bob'']"
proof -
  let ?w1 = "snd (create_app plain_hash world0)"
  let ?w2 = "step (RegisterRequest plain_hash (register_request ''bob'' ''secret'')) ?w1"
  have e: "disk world0 = empty_tables" by (simp add: world0_def)
  from bootstrap_admin [of world0 plain_hash plain_hash] e
  have u1: "users (disk ?w1) = [default_admin plain_hash 1]" and r1: "running plain_hash ?w1"
    by simp_all
  have r2: "running plain_hash ?w2" by (rule running.later [OF r1])
  from bootstrap_admin [of ?w2 plain_hash plain_hash] r2
  have a2: "admins ?w2 = [default_admin plain_hash 1]"
    and d3: "disk (snd (create_app plain_hash ?w2)) = disk ?w2" by simp_all
  have "disk ?w1 = empty_tables\<lparr>users := [default_admin plain_hash 1], users_seq := 1\<rparr>"
    by (simp add: create_app_def create_tables_def ensure_admin_exists_def insert_user_def
        default_admin_def execute_def commit_def attach_db_connection_def
        close_db_connection_def world0_def empty_tables_def next_rowid_def Let_def)
  then have u2: "map users_username (users (disk ?w2)) = [''admin'', ''bob'']"
    by (simp add: register_simps default_admin_def Let_def)
  show ?thesis using u1 a2 d3 u2 by simp
qed

section \<open>Likes\<close>

lemma find_join_rows:
  "find (\<lambda>j. posts_id (fst j) = pid) (join_rows t ps) =
     (case find (\<lambda>p. posts_id p = pid \<and> owner_of t p \<noteq> None) ps of
        None \<Rightarrow> None
      | Some p \<Rightarrow> (case owner_of t p of None \<Rightarrow> None
                   | Some u \<Rightarrow> Some (p, u, like_count_of t pid)))"
  by (induction ps) (auto split: option.splits)

lemma find_Some_sat: "find P xs = Some x \<Longrightarrow> P x \<and> x \<in> set xs"
  by (induction xs) (auto split: if_splits)

lemma owner_of_cong: "users t' = users t \<Longrightarrow> owner_of t' p = owner_of t p"
  by (simp add: owner_of_def)

lemma fetch_post_by_id_count:
  "map_option post_like_count (fst (fetch_post_by_id pid w)) =
     (if find (\<lambda>p. posts_id p = pid \<and> owner_of (txn w) p \<noteq> None) (posts (txn w)) = None
      then None else Some (like_count_of (txn w) pid))"
  by (auto simp: fetch_post_by_id_def joined_posts_def find_join_rows execute_def
      post_detail_of_def Let_def split: option.splits dest: find_Some_sat)

lemma fetch_post_by_id_exists:
  "fst (fetch_post_by_id pid w) \<noteq> None \<longleftrightarrow>
     find (\<lambda>p. posts_id p = pid \<and> owner_of (txn w) p \<noteq> None) (posts (txn w)) \<noteq> None"
  using fetch_post_by_id_count [of pid w] by (auto split: if_splits)

lemma toggle_like_disk:
  assumes sess: "session req = Some s"
    and ex: "fst (fetch_post_by_id pid (attach_db_connection w)) \<noteq> None"
  shows "disk (snd (serve (toggle_like now pid) req w)) =
           (if fst (user_has_liked (sess_user_id s) pid (attach_db_connection w))
            then (disk w)\<lparr>likes :=
                   filter (\<lambda>l. \<not> (likes_user_id l = sess_user_id s \<and> likes_post_id l = pid))
                     (likes (disk w))\<rparr>
            else insert_or_ignore_like (sess_user_id s) pid (isoformat now) (disk w))"
proof -
  from ex obtain j where j: "find (\<lambda>j. posts_id (fst j) = pid) (joined_posts (disk w)) = Some j"
    by (auto simp: fetch_post_by_id_def execute_def attach_db_connection_def Let_def)
  show ?thesis
    by (simp add: serve_snd toggle_like_def login_required_def toggle_like_view_def sess
        fetch_post_by_id_def user_has_liked_def add_like_def remove_like_def j
        execute_def commit_def close_db_connection_def attach_db_connection_def Let_def)
qed

lemma filter_all: "\<forall>x\<in>set xs. P x \<Longrightarrow> filter P xs = xs"
  by (induction xs) auto

text \<open>
  Claim C2. Let \<open>p\<close> be a post that \<open>fetch_post_by_id\<close> finds, with like count \<open>n\<close>, and let
  two \<open>toggle_like\<close> requests for \<open>p\<close> of the logged-in user \<open>u\<close> be served one after
  the other. Then \<open>user_has_liked\<close> answers after the second as it did before the first.
  When \<open>u\<close> had not liked \<open>p\<close>: after the first request \<open>u\<close> has liked \<open>p\<close>, there is
  exactly one like row for \<open>(u, p)\<close> and the reported like count is \<open>n + 1\<close>; after the
  second there is no like row for \<open>(u, p)\<close>, the reported like count is \<open>n\<close> again, and
  the likes table is the one the requests started from.
\<close>

theorem toggle_like_twice:
  assumes s1: "session req1 = Some s1" and s2: "session req2 = Some s2"
    and u1: "sess_user_id s1 = u" and u2: "sess_user_id s2 = u"
    and ex: "map_option post_like_count (fst (fetch_post_by_id p (attach_db_connection w)))
               = Some n"
  shows
    "(let w1 = snd (serve (toggle_like now1 p) req1 w);
          w2 = snd (serve (toggle_like now2 p) req2 w1);
          liked = (\<lambda>x. fst (user_has_liked u p (attach_db_connection x)));
          rows = (\<lambda>x. filter (\<lambda>l. likes_user_id l = u \<and> likes_post_id l = p) (likes (disk x)));
          like_count = (\<lambda>x. map_option post_like_count
                                (fst (fetch_post_by_id p (attach_db_connection x))))
      in liked w2 = liked w \<and>
         (\<not> liked w \<longrightarrow>
            liked w1 \<and> length (rows w1) = 1 \<and> like_count w1 = Some (n + 1) \<and>
            \<not> liked w2 \<and> rows w2 = [] \<and> like_count w2 = Some n \<and>
            likes (disk w2) = likes (disk w)))"
proof -
  let ?a = attach_db_connection
  let ?w1 = "snd (serve (toggle_like now1 p) req1 w)"
  let ?w2 = "snd (serve (toggle_like now2 p) req2 ?w1)"
  let ?pair = "\<lambda>l. likes_user_id l = u \<and> likes_post_id l = p"
  let ?rows = "\<lambda>x. filter ?pair (likes (disk x))"
  let ?found = "\<lambda>t. find (\<lambda>q. posts_id q = p \<and> owner_of t q \<noteq> None) (posts t)"
  have liked_eq: "\<And>x. fst (user_has_liked u p (?a x)) = (?rows x \<noteq> [])"
    by (simp add: user_has_liked_def execute_def attach_db_connection_def)
  have count_eq: "\<And>x. map_option post_like_count (fst (fetch_post_by_id p (?a x))) =
      (if ?found (disk x) = None then None else Some (like_count_of (disk x) p))"
    using fetch_post_by_id_count [of p "?a _"] by (simp add: attach_db_connection_def)
  have found0: "?found (disk w) \<noteq> None" and n: "like_count_of (disk w) p = n"
    using ex count_eq [of w] by (auto split: if_splits)
  have ex0: "fst (fetch_post_by_id p (?a w)) \<noteq> None"
    using found0 fetch_post_by_id_exists [of p "?a w"] by (simp add: attach_db_connection_def)
  note d1 = toggle_like_disk [OF s1 ex0, of now1, unfolded u1 liked_eq]
  have same1: "users (disk ?w1) = users (disk w)" "posts (disk ?w1) = posts (disk w)"
    by (simp_all add: d1 insert_or_ignore_like_def Let_def)
  have found1: "?found (disk ?w1) \<noteq> None"
    using found0 same1 by (simp add: owner_of_def)
  have ex1: "fst (fetch_post_by_id p (?a ?w1)) \<noteq> None"
    using found1 fetch_post_by_id_exists [of p "?a ?w1"] by (simp add: attach_db_connection_def)
  note d2 = toggle_like_disk [OF s2 ex1, of now2, unfolded u2 liked_eq]
  have same2: "users (disk ?w2) = users (disk w)" "posts (disk ?w2) = posts (disk w)"
    using same1 by (simp_all add: d2 insert_or_ignore_like_def Let_def)
  have found2: "?found (disk ?w2) \<noteq> None"
    using found0 same2 by (simp add: owner_of_def)
  have restored: "(?rows ?w2 \<noteq> []) = (?rows w \<noteq> [])"
    by (simp add: d2 d1 insert_or_ignore_like_def Let_def)
  have unliked: "?rows w = [] \<Longrightarrow>
      length (?rows ?w1) = 1 \<and> like_count_of (disk ?w1) p = n + 1 \<and>
      ?rows ?w2 = [] \<and> like_count_of (disk ?w2) p = n \<and> likes (disk ?w2) = likes (disk w)"
  proof -
    assume e: "?rows w = []"
    then have all: "\<forall>l\<in>set (likes (disk w)). \<not> ?pair l"
      by (simp add: filter_empty_conv)
    have l1: "likes (disk ?w1) = likes (disk w) @
        [\<lparr>likes_id = next_rowid (likes_seq (disk w)) (map likes_id (likes (disk w))),
          likes_user_id = u, likes_post_id = p, likes_created_at = isoformat now1\<rparr>]"
      using e by (simp add: d1 insert_or_ignore_like_def Let_def)
    have r1: "?rows ?w1 \<noteq> []" using l1 by simp
    have l2: "likes (disk ?w2) = likes (disk w)"
      using r1 l1 all by (simp add: d2 filter_all)
    show ?thesis using l1 l2 e n by (simp add: like_count_of_def)
  qed
  show ?thesis
    unfolding Let_def liked_eq count_eq
    using restored unliked found1 found2 by auto
qed


lemmas example_simps =
  example_world_def example_tables_def example_users_def example_posts_def example_like_def
  default_admin_def plain_hash_def session_request_def example_now_def

lemmas toggle_simps =
  serve_def toggle_like_def login_required_def toggle_like_view_def
  fetch_post_by_id_def user_has_liked_def add_like_def remove_like_def
  insert_or_ignore_like_def joined_posts_def owner_of_def like_count_of_def
  post_detail_of_def execute_def commit_def close_db_connection_def
  attach_db_connection_def next_rowid_def

text \<open>
  Witness for C2: in the example database \<open>dan\<close> (user 4) has not liked post 1, which has
  two likes; his first toggle makes them three, his second two again.
\<close>

theorem toggle_like_twice_witness:
  "map_option post_like_count (fst (fetch_post_by_id 1 (attach_db_connection
      (snd (serve (toggle_like example_now 1) (session_request 4 ''dan'' False) example_world)))))
     = Some 3 \<and>
   map_option post_like_count (fst (fetch_post_by_id 1 (attach_db_connection
      (snd (serve (toggle_like example_now 1) (session_request 4 ''dan'' False)
        (snd (serve (toggle_like example_now 1) (session_request 4 ''dan'' False)
           example_world)))))))
     = Some 2 \<and>
   likes (disk (snd (serve (toggle_like example_now 1) (session_request 4 ''dan'' False)
        (snd (serve (toggle_like example_now 1) (session_request 4 ''dan'' False)
           example_world))))) = likes (disk example_world)"
proof -
  let ?req = "session_request 4 ''dan'' False"
  let ?s = "\<lparr>sess_user_id = 4, sess_username = ''dan'', sess_is_admin = False\<rparr>"
  have s: "session ?req = Some ?s" by (simp add: session_request_def)
  have u: "sess_user_id ?s = 4" by simp
  have ex: "map_option post_like_count
              (fst (fetch_post_by_id 1 (attach_db_connection example_world))) = Some 2"
    by (simp add: example_simps toggle_simps)
  have unliked: "\<not> fst (user_has_liked 4 1 (attach_db_connection example_world))"
    by (simp add: example_simps toggle_simps)
  from toggle_like_twice [OF s s u u ex, of example_now example_now] unliked
  show ?thesis by (simp add: Let_def)
qed

section \<open>Deleting a post\<close>

lemma remove_post_effect:
  assumes "remove_post d post w = (r, w')"
  shows "disk w' = without_post (post_id post) (txn w) \<and> txn w' = disk w' \<and>
         trace w' = trace w @
           [Execute (DeleteLikesOfPost (post_id post)), Execute (DeletePost (post_id post)),
            Commit, PathExists (image_path_of d post)] @
           (if files w (image_path_of d post) = None then []
            else [OsRemove (image_path_of d post)]) \<and>
         (case files w (image_path_of d post) of
            None \<Rightarrow> r = Inr () \<and> files w' = files w
          | Some (File ok) \<Rightarrow>
              if ok then r = Inr () \<and> files w' = (files w)(image_path_of d post := None)
              else r = Inl PermissionError \<and> files w' = files w
          | Some Directory \<Rightarrow> r = Inl IsADirectoryError \<and> files w' = files w)"
  using assms
  by (auto simp: remove_post_def image_path_of_def without_post_def path_exists_def
      os_remove_def execute_def commit_def Let_def
      split: option.splits entry.splits if_splits)

lemma fetch_post_by_id_id:
  "fst (fetch_post_by_id pid w) = Some post \<Longrightarrow> post_id post = pid"
  by (auto simp: fetch_post_by_id_def execute_def Let_def post_detail_of_def
      dest!: find_Some_sat)

text \<open>
  Claim C4. Let an administrator's \<open>delete_post\<close> request for a post that
  \<open>fetch_post_by_id\<close> finds be served. Its effects are, in this order: the post is
  looked up, the likes rows of the post are deleted, the post row is deleted, the
  transaction is committed, the image path is tested for existence and, when it exists,
  \<open>os.remove\<close> is called on it: the removal comes after the commit. Whatever
  \<open>os.remove\<close> does, the committed database afterwards is the one before without the
  post and its likes: when the removal raises, the request ends with that exception, the
  file is still there and the rows stay deleted.
\<close>

theorem delete_post_steps:
  assumes sess: "session req = Some s" and adm: "sess_is_admin s"
    and ex: "fst (fetch_post_by_id pid (attach_db_connection w)) = Some post"
    and run: "serve (delete_post app_dir pid) req w = (r, w')"
  shows "trace w' = trace w @
           [Execute (SelectPostById pid), Execute (DeleteLikesOfPost pid),
            Execute (DeletePost pid), Commit, PathExists (image_path_of app_dir post)] @
           (if files w (image_path_of app_dir post) = None then []
            else [OsRemove (image_path_of app_dir post)]) \<and>
         disk w' = without_post pid (disk w) \<and>
         (case files w (image_path_of app_dir post) of
            None \<Rightarrow> r = post_deleted \<and> files w' = files w
          | Some (File ok) \<Rightarrow>
              if ok then r = post_deleted \<and>
                         files w' = (files w)(image_path_of app_dir post := None)
              else r = Raised PermissionError \<and> files w' = files w
          | Some Directory \<Rightarrow> r = Raised IsADirectoryError \<and> files w' = files w)"
proof -
  let ?a = "attach_db_connection w"
  let ?w1 = "execute (SelectPostById pid) ?a"
  have f: "fetch_post_by_id pid ?a = (Some post, ?w1)"
    using ex by (simp add: fetch_post_by_id_def Let_def)
  obtain r2 w2 where rp: "remove_post app_dir post ?w1 = (r2, w2)"
    by (cases "remove_post app_dir post ?w1")
  have pid: "post_id post = pid" using ex by (rule fetch_post_by_id_id)
  have view: "delete_post app_dir pid req ?a =
      (case r2 of Inl e \<Rightarrow> Raised e | Inr _ \<Rightarrow> post_deleted, w2)"
    using sess adm
    by (simp add: delete_post_def login_required_def admin_required_def delete_post_view_def
        f rp post_deleted_def split: sum.splits)
  have w': "w' = close_db_connection w2"
    and r: "r = (case r2 of Inl e \<Rightarrow> Raised e | Inr _ \<Rightarrow> post_deleted)"
    using run by (simp_all add: serve_def view)
  note e = remove_post_effect [OF rp, unfolded pid]
  have base: "txn ?w1 = disk w" "trace ?w1 = trace w @ [Execute (SelectPostById pid)]"
    "files ?w1 = files w"
    by (simp_all add: execute_def attach_db_connection_def)
  show ?thesis
    using e unfolding w' r base
    by (auto simp: close_db_connection_def post_deleted_def
        split: option.splits entry.splits if_splits sum.splits)
qed

text \<open>
  Claim C10. When no file stands at the image path of the post, \<open>remove_post\<close> returns
  normally, the committed database is the one the connection saw without the post and
  its likes (no likes row and no post row with the id are left), \<open>os.remove\<close> is not
  called and the file system is untouched.
\<close>

theorem remove_post_missing_file:
  assumes "files w (image_path_of app_dir post) = None"
  shows "fst (remove_post app_dir post w) = Inr () \<and>
         disk (snd (remove_post app_dir post w)) = without_post (post_id post) (txn w) \<and>
         txn (snd (remove_post app_dir post w)) = without_post (post_id post) (txn w) \<and>
         filter (\<lambda>l. likes_post_id l = post_id post)
           (likes (disk (snd (remove_post app_dir post w)))) = [] \<and>
         filter (\<lambda>p. posts_id p = post_id post)
           (posts (disk (snd (remove_post app_dir post w)))) = [] \<and>
         files (snd (remove_post app_dir post w)) = files w \<and>
         trace (snd (remove_post app_dir post w)) = trace w @
           [Execute (DeleteLikesOfPost (post_id post)), Execute (DeletePost (post_id post)),
            Commit, PathExists (image_path_of app_dir post)]"
proof -
  obtain r w' where rp: "remove_post app_dir post w = (r, w')"
    by (cases "remove_post app_dir post w")
  from remove_post_effect [OF rp] assms show ?thesis
    by (simp add: rp without_post_def filter_empty_conv)
qed


lemmas delete_simps =
  fetch_post_by_id_def joined_posts_def owner_of_def like_count_of_def post_detail_of_def
  execute_def attach_db_connection_def image_path_of_def path_join_def without_post_def

text \<open>
  Witness for C4: the administrator deletes post 1 of the example database; once with a
  removable image, and once with an image that \<open>os.remove\<close> refuses, where the request
  raises and post 1 and its likes are gone all the same.
\<close>

theorem delete_post_steps_witness:
  "fst (serve (delete_post ''/srv/app'' 1) (session_request 1 ''admin'' True) example_world)
     = post_deleted \<and>
   trace (snd (serve (delete_post ''/srv/app'' 1) (session_request 1 ''admin'' True) example_world))
     = [Execute (SelectPostById 1), Execute (DeleteLikesOfPost 1), Execute (DeletePost 1),
        Commit, PathExists ''/srv/app/uploads/20240101100000000000_a.png'',
        OsRemove ''/srv/app/uploads/20240101100000000000_a.png''] \<and>
   fst (serve (delete_post ''/srv/app'' 1) (session_request 1 ''admin'' True) locked_world)
     = Raised PermissionError \<and>
   map posts_id (posts (disk (snd
     (serve (delete_post ''/srv/app'' 1) (session_request 1 ''admin'' True) locked_world)))) = [2] \<and>
   map likes_post_id (likes (disk (snd
     (serve (delete_post ''/srv/app'' 1) (session_request 1 ''admin'' True) locked_world))))
     = [2, 2, 2]"
proof -
  let ?req = "session_request 1 ''admin'' True"
  let ?s = "\<lparr>sess_user_id = 1, sess_username = ''admin'', sess_is_admin = True\<rparr>"
  let ?run1 = "serve (delete_post ''/srv/app'' 1) ?req example_world"
  let ?run2 = "serve (delete_post ''/srv/app'' 1) ?req locked_world"
  have s: "session ?req = Some ?s" by (simp add: session_request_def)
  have a: "sess_is_admin ?s" by simp
  have ex1: "fst (fetch_post_by_id 1 (attach_db_connection example_world)) = Some example_post1"
    by (simp add: example_simps delete_simps example_post1_def)
  have ex2: "fst (fetch_post_by_id 1 (attach_db_connection locked_world)) = Some example_post1"
    by (simp add: example_simps delete_simps example_post1_def locked_world_def)
  have p: "image_path_of ''/srv/app'' example_post1
             = ''/srv/app/uploads/20240101100000000000_a.png''"
    by (simp add: delete_simps example_post1_def)
  have f1: "files example_world ''/srv/app/uploads/20240101100000000000_a.png'' = Some (File True)"
    by (simp add: example_world_def)
  have f2: "files locked_world ''/srv/app/uploads/20240101100000000000_a.png'' = Some (File False)"
    by (simp add: locked_world_def)
  have t: "trace example_world = []" by (simp add: example_world_def)
  have d2: "disk locked_world = example_tables"
    by (simp add: locked_world_def example_world_def)
  note one = delete_post_steps [OF s a ex1 surjective_pairing [of ?run1], unfolded p f1 t]
  note two = delete_post_steps [OF s a ex2 surjective_pairing [of ?run2], unfolded p f2 d2]
  show ?thesis using one two
    by (simp add: example_simps without_post_def)
qed


text \<open>
  Witness for C10: the image of post 2 is not in the upload directory of the example
  world; \<open>remove_post\<close> deletes post 2 and its three likes and ends normally.
\<close>

theorem remove_post_missing_file_witness:
  "fst (remove_post ''/srv/app'' example_post2 example_world) = Inr () \<and>
   map likes_post_id (likes (disk (snd (remove_post ''/srv/app'' example_post2 example_world))))
     = [1, 1] \<and>
   map posts_id (posts (disk (snd (remove_post ''/srv/app'' example_post2 example_world))))
     = [1] \<and>
   trace (snd (remove_post ''/srv/app'' example_post2 example_world)) =
     [Execute (DeleteLikesOfPost 2), Execute (DeletePost 2), Commit,
      PathExists ''/srv/app/uploads/20240102203000500000_b.png'']"
proof -
  have p: "image_path_of ''/srv/app'' example_post2
             = ''/srv/app/uploads/20240102203000500000_b.png''"
    by (simp add: delete_simps example_post2_def)
  have f: "files example_world (image_path_of ''/srv/app'' example_post2) = None"
    unfolding p by (simp add: example_world_def)
  have i: "post_id example_post2 = 2" by (simp add: example_post2_def)
  have t: "txn example_world = example_tables" "trace example_world = []"
    by (simp_all add: example_world_def)
  from remove_post_missing_file [OF f, unfolded p i t]
  show ?thesis by (simp add: example_simps without_post_def)
qed

section \<open>Listing posts by likes\<close>













lemma order_clause_likes: "order_clause ''likes'' = [LikeCountDesc, CreatedAtDesc]"
  by (simp add: order_clause_def order_map_def)

lemma order_clause_recent: "order_clause ''recent'' = [CreatedAtDesc]"
  by (simp add: order_clause_def order_map_def)

lemma precedes_likes:
  "precedes [LikeCountDesc, CreatedAtDesc] a b \<longleftrightarrow>
     row_like_count b < row_like_count a \<or>
     (row_like_count a = row_like_count b \<and> row_created_at b \<le> row_created_at a)"
  by auto

lemma tie_likes:
  "precedes [LikeCountDesc, CreatedAtDesc] a b \<and> precedes [LikeCountDesc, CreatedAtDesc] b a \<longleftrightarrow>
     row_like_count a = row_like_count b \<and> row_created_at a = row_created_at b"
  by auto




section \<open>Creation times as text\<close>

lemma length_zpad [simp]: "length (zpad n v) = n"
  by (induction n arbitrary: v) auto

lemma of_char_digit: "(of_char (digit d) :: int) = 48 + d mod 10"
proof -
  have "(48 + d mod 10) mod 256 = 48 + d mod 10"
    by (rule mod_pos_pos_trivial) (use pos_mod_bound [of 10 d] pos_mod_sign [of 10 d] in simp_all)
  then show ?thesis by (simp add: digit_def)
qed

lemma is_digit_digit [simp]: "is_digit (digit d)"
  using pos_mod_bound [of 10 d] pos_mod_sign [of 10 d] by (simp add: is_digit_def of_char_digit)

lemma all_digits_zpad [simp]: "list_all is_digit (zpad n v)"
  by (induction n arbitrary: v) auto

lemma value_zpad:
  "0 \<le> v \<Longrightarrow> v < 10 ^ n \<Longrightarrow> foldl (\<lambda>a c. 10 * a + (of_char c - 48)) 0 (zpad n v) = v"
proof (induction n arbitrary: v)
  case 0
  then show ?case by simp
next
  case (Suc n)
  have "v div 10 < 10 ^ n" using Suc.prems by (simp add: div_less_iff_less_mult mult.commute)
  moreover have "0 \<le> v div 10" using Suc.prems by simp
  ultimately have "foldl (\<lambda>a c. 10 * a + (of_char c - 48)) 0 (zpad n (v div 10)) = v div 10"
    by (rule Suc.IH [rotated])
  then show ?case by (simp add: of_char_digit)
qed

lemma parse_digits_zpad:
  "0 \<le> v \<Longrightarrow> v < 10 ^ n \<Longrightarrow> parse_digits n (zpad n v) = Some v"
  by (simp add: parse_digits_def value_zpad)

lemma parse_date_zpad:
  assumes "1 \<le> y" "y \<le> 9999" "1 \<le> m" "m \<le> 12" "1 \<le> d" "d \<le> days_in_month y m"
  shows "parse_date (zpad 4 y @ ''-'' @ zpad 2 m @ ''-'' @ zpad 2 d) = Some (y, m, d)"
proof -
  have "d \<le> 31" using assms
    by (auto simp: days_in_month_def days_in_month_tab_def nth_Cons split: if_splits nat.splits)
  then have p: "parse_digits 4 (zpad 4 y) = Some y" "parse_digits 2 (zpad 2 m) = Some m"
    "parse_digits 2 (zpad 2 d) = Some d"
    using assms by (simp_all add: parse_digits_zpad)
  show ?thesis using assms by (simp add: parse_date_def nth_append p)
qed

lemma parse_hms_zpad:
  assumes "0 \<le> h" "h < 24" "0 \<le> m" "m < 60" "0 \<le> s" "s < 60"
  shows "parse_hms (zpad 2 h @ '':'' @ zpad 2 m @ '':'' @ zpad 2 s) = Some (h, m, s)"
proof -
  have p: "parse_digits 2 (zpad 2 h) = Some h" "parse_digits 2 (zpad 2 m) = Some m"
    "parse_digits 2 (zpad 2 s) = Some s"
    using assms by (simp_all add: parse_digits_zpad)
  show ?thesis using assms by (simp add: parse_hms_def nth_append p)
qed

lemma parse_offset_utc: "parse_offset ''+00:00'' = Some (Some 0)"
  by (simp add: parse_offset_def parse_digits_def is_digit_def)

lemma zpad_2_0: "zpad 2 0 = ''00''"
  by code_simp

lemma fromisoformat_isoformat:
  assumes "valid_utc dt"
  shows "fromisoformat (isoformat dt) = Inr dt"
proof -
  let ?date = "zpad 4 (year dt) @ ''-'' @ zpad 2 (month dt) @ ''-'' @ zpad 2 (day dt)"
  let ?hms = "zpad 2 (hour dt) @ '':'' @ zpad 2 (minute dt) @ '':'' @ zpad 2 (second dt)"
  let ?frac = "if microsecond dt = 0 then [] else ''.'' @ zpad 6 (microsecond dt)"
  have iso: "isoformat dt = ?date @ ''T'' @ ?hms @ ?frac @ ''+00:00''"
    using assms by (simp add: isoformat_def valid_utc_def format_offset_def zpad_2_0)
  have ld: "length ?date = 10" and lh: "length ?hms = 8" by simp_all
  have d: "parse_date ?date = Some (year dt, month dt, day dt)"
    using assms by (intro parse_date_zpad) (simp_all add: valid_utc_def)
  have h: "parse_hms ?hms = Some (hour dt, minute dt, second dt)"
    using assms by (intro parse_hms_zpad) (simp_all add: valid_utc_def)
  have us: "parse_digits 6 (zpad 6 (microsecond dt)) = Some (microsecond dt)"
    using assms by (intro parse_digits_zpad) (simp_all add: valid_utc_def)
  have t10: "take 10 (isoformat dt) = ?date" unfolding iso using ld by simp
  have d11: "drop 11 (isoformat dt) = ?hms @ ?frac @ ''+00:00''" unfolding iso using ld by simp
  have d10: "\<not> length (isoformat dt) \<le> 10" unfolding iso by simp
  have off: "utcoffset dt = Some 0" using assms by (simp add: valid_utc_def)
  show ?thesis
  proof (cases "microsecond dt = 0")
    case True
    then show ?thesis
      using d h off lh
      by (simp add: fromisoformat_def t10 d11 d10 parse_offset_utc Let_def)
  next
    case False
    then show ?thesis
      using d h us off lh
      by (simp add: fromisoformat_def t10 d11 d10 parse_offset_utc Let_def)
  qed
qed

section \<open>Rendering creation times\<close>

lemma month_cases:
  assumes "1 \<le> m" "m \<le> (12::int)"
  shows "m = 1 \<or> m = 2 \<or> m = 3 \<or> m = 4 \<or> m = 5 \<or> m = 6 \<or> m = 7 \<or> m = 8 \<or> m = 9 \<or>
         m = 10 \<or> m = 11 \<or> m = 12"
  using assms by arith

lemma day_of_year_bounds:
  assumes "1 \<le> m" "m \<le> 12" "1 \<le> d" "d \<le> days_in_month y m"
  shows "1 \<le> days_before_month y m + d \<and> days_before_month y m + d \<le> 366"
  using month_cases [OF assms(1,2)] assms(3,4)
  by (auto simp: days_before_month_def days_in_month_def days_before_month_tab_def
      days_in_month_tab_def split: if_splits)

lemma days_before_year_bounds:
  assumes "2 \<le> y" "y \<le> 9998"
  shows "365 \<le> days_before_year y \<and> days_before_year y \<le> 3651428"
proof -
  let ?p = "y - 1"
  have p: "1 \<le> ?p" "?p \<le> 9997" using assms by simp_all
  have a: "?p div 100 \<le> ?p div 4" using p by (intro zdiv_mono2) simp_all
  have b: "0 \<le> ?p div 400" using p by simp
  have c: "?p div 4 \<le> 9997 div 4" using p by (intro zdiv_mono1) simp_all
  have d: "?p div 400 \<le> 9997 div 400" using p by (intro zdiv_mono1) simp_all
  have e: "0 \<le> ?p div 100" using p by simp
  show ?thesis unfolding days_before_year_def Let_def using p a b c d e by simp
qed

lemma wall_us_bounds:
  assumes v: "valid_utc dt" and y: "2 \<le> year dt" "year dt \<le> 9998"
  shows "86400000000 \<le> wall_us dt \<and> wall_us dt < max_wall_us - 86400000000"
proof -
  from v have f: "1 \<le> month dt" "month dt \<le> 12" "1 \<le> day dt"
    "day dt \<le> days_in_month (year dt) (month dt)"
    "0 \<le> hour dt" "hour dt < 24" "0 \<le> minute dt" "minute dt < 60"
    "0 \<le> second dt" "second dt < 60" "0 \<le> microsecond dt" "microsecond dt < 1000000"
    by (simp_all add: valid_utc_def)
  note doy = day_of_year_bounds [OF f(1-4)]
  note dby = days_before_year_bounds [OF y]
  have o: "366 \<le> ymd2ord (year dt) (month dt) (day dt)"
    "ymd2ord (year dt) (month dt) (day dt) \<le> 3651794"
    using doy dby by (simp_all add: ymd2ord_def)
  let ?s = "(ymd2ord (year dt) (month dt) (day dt) - 1) * 86400 +
        hour dt * 3600 + minute dt * 60 + second dt"
  have s: "365 * 86400 \<le> ?s" "?s < 3651794 * 86400"
    using o f by simp_all
  have w: "wall_us dt = ?s * 1000000 + microsecond dt" by (simp add: wall_us_def)
  show ?thesis unfolding w max_wall_us_def using s f by simp
qed

lemma astimezone_aware:
  assumes "utcoffset dt = Some off"
  shows "astimezone h z dt =
           (let t = wall_us dt - off * 1000000 in
            if t < 0 \<or> max_wall_us \<le> t then Inl OverflowError
            else from_wall_us (t + tz_utcoffset z t * 1000000) (Some (tz_utcoffset z t)))"
  using assms by (simp add: astimezone_def utc_us_def Let_def)


lemma from_wall_us_ok: "0 \<le> t \<Longrightarrow> t < max_wall_us \<Longrightarrow> \<exists>c. from_wall_us t off = Inr c"
  by (simp add: from_wall_us_def Let_def split: prod.splits)

lemma renders_isoformat:
  assumes v: "valid_utc now" and y: "2 \<le> year now" "year now \<le> 9998"
    and z: "\<bar>tz_utcoffset (IST h) (wall_us now)\<bar> \<le> 86400"
  shows "renders h (isoformat now)"
proof -
  note b = wall_us_bounds [OF v y]
  have off: "utcoffset now = Some 0" using v by (simp add: valid_utc_def)
  let ?o = "tz_utcoffset (IST h) (wall_us now)"
  have "0 \<le> wall_us now + ?o * 1000000" "wall_us now + ?o * 1000000 < max_wall_us"
    using b z unfolding max_wall_us_def by arith+
  from from_wall_us_ok [OF this, of "Some ?o"] obtain c
    where c: "from_wall_us (wall_us now + ?o * 1000000) (Some ?o) = Inr c" ..
  have "astimezone h (IST h) now = Inr c"
    using b c by (simp add: astimezone_aware [OF off] Let_def max_wall_us_def)
  then show ?thesis by (simp add: renders_def fromisoformat_isoformat [OF v])
qed

lemma format_rows_Cons_isl:
  "isl (format_rows h liked (r # rows)) =
     (\<not> renders h (row_created_at r) \<or> isl (format_rows h liked rows))"
  by (simp add: renders_def split: sum.splits)

lemma format_rows_isl:
  "isl (format_rows h liked rows) = (\<exists>r\<in>set rows. \<not> renders h (row_created_at r))"
proof (induction rows)
  case Nil
  then show ?case by simp
next
  case (Cons r rows)
  show ?case unfolding format_rows_Cons_isl Cons.IH by simp
qed

lemma format_rows_total:
  "(\<exists>views. format_rows h liked rows = Inr views) \<longleftrightarrow>
     (\<forall>r\<in>set rows. renders h (row_created_at r))"
  using format_rows_isl [of h liked rows] by (cases "format_rows h liked rows") auto

lemma format_rows_flags:
  "format_rows h liked rows = Inr views \<Longrightarrow>
     map view_id views = map row_id rows \<and>
     map view_liked views = map (\<lambda>r. row_id r \<in> liked) rows \<and>
     map view_like_count views = map row_like_count rows"
  by (induction rows arbitrary: views) (auto split: sum.splits)


section \<open>The display time zone\<close>





lemma parse_example2:
  "fromisoformat ''2024-01-02T20:30:00.500000+00:00'' =
     Inr \<lparr>year = 2024, month = 1, day = 2, hour = 20, minute = 30, second = 0,
          microsecond = 500000, utcoffset = Some 0\<rparr>"
  by code_simp

lemma parse_example1:
  "fromisoformat ''2024-01-01T10:00:00+00:00'' =
     Inr \<lparr>year = 2024, month = 1, day = 1, hour = 10, minute = 0, second = 0,
          microsecond = 0, utcoffset = Some 0\<rparr>"
  by code_simp

lemma parse_old:
  "fromisoformat ''1943-01-01T00:00:00+00:00'' =
     Inr \<lparr>year = 1943, month = 1, day = 1, hour = 0, minute = 0, second = 0,
          microsecond = 0, utcoffset = Some 0\<rparr>"
  by code_simp


section \<open>The example database on two hosts\<close>





section \<open>The viewer's likes\<close>

lemma liked_ids:
  "fst (get_user_liked_post_ids uid w) =
     {pid. \<exists>l\<in>set (likes (txn w)). likes_user_id l = uid \<and> likes_post_id l = pid}"
  by (auto simp: get_user_liked_post_ids_def execute_def Let_def)

lemma format_rows_liked:
  assumes "format_rows h liked rows = Inr views"
  shows "map view_id views = map row_id rows \<and>
         (\<forall>v\<in>set views. view_liked v \<longleftrightarrow> view_id v \<in> liked)"
  using assms by (induction rows arbitrary: views) (auto split: sum.splits)

text \<open>
  Claim C6. Let a logged-in viewer's request for the feed or the leaderboard (the view
  \<open>list_view\<close> behind \<open>login_required\<close>) be served. It executes exactly two statements,
  whatever the number of posts: the selection of the posts and one selection of all post
  ids the viewer likes; it writes nothing. When it renders, the views are the fetched
  rows in their order, and a view has \<open>liked\<close> set if and only if the likes table holds a
  row for the viewer and that post. It does render when every fetched \<open>created_at\<close>
  renders, which holds for the text \<open>isoformat\<close> writes for a clock reading in the years
  2..9998 when the zone's offset stays within a day.
\<close>

theorem annotate_viewer_state:
  assumes sess: "session req = Some s"
    and run: "serve (login_required (list_view sorting template h)) req w = (r, w')"
  shows "trace w' = trace w @
           [Execute (SelectPosts (order_clause sorting)),
            Execute (SelectLikedPostIds (sess_user_id s))] \<and>
         disk w' = disk w \<and>
         ((\<forall>row\<in>set (fst (fetch_posts sorting (attach_db_connection w))).
              renders h (row_created_at row)) \<longrightarrow> (\<exists>views. r = Render template views)) \<and>
         (\<forall>views. r = Render template views \<longrightarrow>
            map view_id views = map row_id (fst (fetch_posts sorting (attach_db_connection w))) \<and>
            (\<forall>v\<in>set views. view_liked v \<longleftrightarrow>
               (\<exists>l\<in>set (likes (disk w)).
                  likes_user_id l = sess_user_id s \<and> likes_post_id l = view_id v))) \<and>
         (\<forall>now. valid_utc now \<and> 2 \<le> year now \<and> year now \<le> 9998 \<and>
                \<bar>tz_utcoffset (IST h) (wall_us now)\<bar> \<le> 86400 \<longrightarrow>
                renders h (isoformat now))"
proof -
  let ?a = "attach_db_connection w"
  let ?rows = "fst (fetch_posts sorting ?a)"
  let ?w1 = "snd (fetch_posts sorting ?a)"
  let ?liked = "fst (get_user_liked_post_ids (sess_user_id s) ?w1)"
  let ?w2 = "snd (get_user_liked_post_ids (sess_user_id s) ?w1)"
  let ?f = "format_rows h ?liked ?rows"
  have w1: "txn ?w1 = disk w" "disk ?w1 = disk w"
    "trace ?w1 = trace w @ [Execute (SelectPosts (order_clause sorting))]"
    by (simp_all add: fetch_posts_def execute_def attach_db_connection_def Let_def)
  have w2: "disk ?w2 = disk w"
    "trace ?w2 = trace w @ [Execute (SelectPosts (order_clause sorting)),
            Execute (SelectLikedPostIds (sess_user_id s))]"
    using w1 by (simp_all add: get_user_liked_post_ids_def execute_def Let_def)
  have liked: "?liked = {pid. \<exists>l\<in>set (likes (disk w)).
      likes_user_id l = sess_user_id s \<and> likes_post_id l = pid}"
    by (simp add: liked_ids w1)
  have view: "list_view sorting template h req ?a =
      (case ?f of Inl e \<Rightarrow> Raised e | Inr views \<Rightarrow> Render template views, ?w2)"
    by (simp add: list_view_def sess format_posts_for_view_def split: prod.splits sum.splits)
  have r: "r = (case ?f of Inl e \<Rightarrow> Raised e | Inr views \<Rightarrow> Render template views)"
    and w': "w' = close_db_connection ?w2"
    using run by (simp_all add: serve_def login_required_def sess view)
  have 1: "trace w' = trace w @
           [Execute (SelectPosts (order_clause sorting)),
            Execute (SelectLikedPostIds (sess_user_id s))]"
    and 2: "disk w' = disk w"
    by (simp_all add: w' close_db_connection_def w2)
  have 3: "(\<forall>row\<in>set ?rows. renders h (row_created_at row)) \<longrightarrow>
             (\<exists>views. r = Render template views)"
    using format_rows_total [of h ?liked ?rows] by (auto simp: r)
  have 4: "\<forall>views. r = Render template views \<longrightarrow>
            map view_id views = map row_id ?rows \<and>
            (\<forall>v\<in>set views. view_liked v \<longleftrightarrow>
               (\<exists>l\<in>set (likes (disk w)).
                  likes_user_id l = sess_user_id s \<and> likes_post_id l = view_id v))"
  proof (intro allI impI)
    fix views assume "r = Render template views"
    then have "?f = Inr views" by (simp add: r split: sum.splits)
    from format_rows_liked [OF this] show "map view_id views = map row_id ?rows \<and>
            (\<forall>v\<in>set views. view_liked v \<longleftrightarrow>
               (\<exists>l\<in>set (likes (disk w)).
                  likes_user_id l = sess_user_id s \<and> likes_post_id l = view_id v))"
      unfolding liked by simp
  qed
  have 5: "\<forall>now. valid_utc now \<and> 2 \<le> year now \<and> year now \<le> 9998 \<and>
                \<bar>tz_utcoffset (IST h) (wall_us now)\<bar> \<le> 86400 \<longrightarrow>
                renders h (isoformat now)"
    using renders_isoformat by blast
  show ?thesis by (intro conjI) (rule 1 2 3 4 5)+
qed

lemma leaderboard_example:
  "(case fst (serve (leaderboard tzdata_host) (session_request 2 ''bob'' False) example_world) of
      Render t views \<Rightarrow> Some (t, map (\<lambda>v. (view_id v, view_liked v)) views)
    | _ \<Rightarrow> None) = Some (''leaderboard.html'', [(2, True), (1, False)])"
  by code_simp

text \<open>
  Witness for C6: \<open>bob\<close> (user 2) likes post 2 and not post 1; his leaderboard shows post 2
  as liked and post 1 as not liked, after two statements.
\<close>

theorem annotate_viewer_state_witness:
  "trace (snd (serve (leaderboard tzdata_host) (session_request 2 ''bob'' False) example_world))
     = [Execute (SelectPosts [LikeCountDesc, CreatedAtDesc]), Execute (SelectLikedPostIds 2)] \<and>
   (case fst (serve (leaderboard tzdata_host) (session_request 2 ''bob'' False) example_world) of
      Render t views \<Rightarrow> Some (t, map (\<lambda>v. (view_id v, view_liked v)) views)
    | _ \<Rightarrow> None) = Some (''leaderboard.html'', [(2, True), (1, False)])"
proof -
  let ?req = "session_request 2 ''bob'' False"
  let ?s = "\<lparr>sess_user_id = 2, sess_username = ''bob'', sess_is_admin = False\<rparr>"
  let ?run = "serve (leaderboard tzdata_host) ?req example_world"
  have s: "session ?req = Some ?s" by (simp add: session_request_def)
  have run: "serve (login_required (list_view ''likes'' ''leaderboard.html'' tzdata_host)) ?req
               example_world = (fst ?run, snd ?run)"
    by (simp add: leaderboard_def)
  note t = annotate_viewer_state [OF s run, THEN conjunct1]
  have "trace (snd ?run) =
      [Execute (SelectPosts [LikeCountDesc, CreatedAtDesc]), Execute (SelectLikedPostIds 2)]"
    using t by (simp add: order_clause_likes example_world_def)
  then show ?thesis using leaderboard_example by simp
qed

end
